theory Spec2Isabelle
  imports Complex_Main
begin

section \<open>Python values shared by the three modules\<close>

text \<open>
  Exceptions of the source are values. Only the exceptions the modelled functions can
  raise on well-typed input are listed.
\<close>

datatype py_error = ValueError | KeyError | ZeroDivisionError | NameError

text \<open>
  Running a fallible function over a list, stopping at the first error, as an exception
  leaving a \<open>for\<close> loop does.
\<close>

fun map_result :: "('a \<Rightarrow> py_error + 'b) \<Rightarrow> 'a list \<Rightarrow> py_error + 'b list" where
  "map_result f [] = Inr []"
| "map_result f (x # xs) =
     (case f x of
        Inl e \<Rightarrow> Inl e
      | Inr y \<Rightarrow> (case map_result f xs of Inl e \<Rightarrow> Inl e | Inr ys \<Rightarrow> Inr (y # ys)))"

subsection \<open>Strings\<close>

text \<open>
  Strings are ASCII character lists. \<open>str_contains p s\<close> is Python's \<open>p in s\<close> on strings,
  \<open>str_lower\<close> is \<open>s.lower()\<close>, \<open>split_on c s\<close> is \<open>s.split(c)\<close> for a one-character
  separator (it always returns at least one part).
\<close>

definition starts_with :: "string \<Rightarrow> string \<Rightarrow> bool" where
  "starts_with p s = (take (length p) s = p)"

fun str_contains :: "string \<Rightarrow> string \<Rightarrow> bool" where
  "str_contains p [] = (p = [])"
| "str_contains p (c # cs) = (starts_with p (c # cs) \<or> str_contains p cs)"

definition lower_char :: "char \<Rightarrow> char" where
  "lower_char c =
     (let n = (of_char c :: nat) in if 65 \<le> n \<and> n \<le> 90 then char_of (n + 32) else c)"

definition str_lower :: "string \<Rightarrow> string" where
  "str_lower s = map lower_char s"

fun split_on :: "char \<Rightarrow> string \<Rightarrow> string list" where
  "split_on sep [] = [[]]"
| "split_on sep (c # cs) =
     (if c = sep then [] # split_on sep cs
      else (case split_on sep cs of [] \<Rightarrow> [[c]] | p # ps \<Rightarrow> (c # p) # ps))"

text \<open>
  \<open>str(n)\<close> for an integer: decimal digits, a leading minus sign for a negative number.
\<close>

definition digit_char :: "nat \<Rightarrow> char" where
  "digit_char d = char_of (48 + d)"

function show_nat :: "nat \<Rightarrow> string" where
  "show_nat n = (if n < 10 then [digit_char n] else show_nat (n div 10) @ [digit_char (n mod 10)])"
  by pat_completeness auto
termination
  by (relation "measure id") auto

declare show_nat.simps [simp del]

definition show_int :: "int \<Rightarrow> string" where
  "show_int i = (if i < 0 then CHR ''-'' # show_nat (nat (- i)) else show_nat (nat i))"

text \<open>
  \<open>int(s)\<close> for a string: surrounding whitespace (the characters 9 to 13 and the
  space) is stripped, one sign is allowed, then decimal digits, where single
  underscores may separate digits. Anything else raises ValueError, here \<open>None\<close>.
\<close>

definition is_space :: "char \<Rightarrow> bool" where
  "is_space c =
     (let n = (of_char c :: nat) in (9 \<le> n \<and> n \<le> 13) \<or> n = 32)"

definition is_digit :: "char \<Rightarrow> bool" where
  "is_digit c = (let n = (of_char c :: nat) in 48 \<le> n \<and> n \<le> 57)"

definition digit_val :: "char \<Rightarrow> int" where
  "digit_val c = int (of_char c) - 48"

definition str_strip :: "string \<Rightarrow> string" where
  "str_strip s = rev (dropWhile is_space (rev (dropWhile is_space s)))"

text \<open>
  \<open>parse_digits seen acc s\<close> reads the rest of a digit string; \<open>seen\<close> says that the
  previous character was a digit (so that an underscore or the end may follow).
\<close>

fun parse_digits :: "bool \<Rightarrow> int \<Rightarrow> string \<Rightarrow> int option" where
  "parse_digits seen acc [] = (if seen then Some acc else None)"
| "parse_digits seen acc (c # cs) =
     (if is_digit c then parse_digits True (acc * 10 + digit_val c) cs
      else if c = CHR ''_'' \<and> seen then parse_digits False acc cs
      else None)"

definition py_int :: "string \<Rightarrow> int option" where
  "py_int s =
     (case str_strip s of
        [] \<Rightarrow> None
      | c # cs \<Rightarrow>
          if c = CHR ''-'' then map_option uminus (parse_digits False 0 cs)
          else if c = CHR ''+'' then parse_digits False 0 cs
          else parse_digits False 0 (c # cs))"

text \<open>
  \<open>int(x)\<close> for a float truncates toward zero. Floats are modelled by exact rationals.
\<close>

definition py_trunc :: "rat \<Rightarrow> int" where
  "py_trunc q = (if 0 \<le> q then \<lfloor>q\<rfloor> else - \<lfloor>- q\<rfloor>)"

section \<open>planner.py: WorkoutPlanner\<close>

subsection \<open>Data\<close>

text \<open>
  An exercise of the catalogue, as \<open>_select_exercises_for_focus\<close> returns it. The key
  \<open>instructions\<close> may be absent.
\<close>

record exercise =
  ex_id :: int
  ex_title :: string
  ex_type :: string
  muscle_group :: string
  equipment :: string
  level :: string
  instructions :: "string option"

text \<open>The value under \<open>reps\<close> is an integer or a string.\<close>

datatype reps_value = RepsInt int | RepsStr string

record exercise_config =
  config_id :: int
  title :: string
  sets :: int
  reps :: reps_value
  rest :: string
  tempo :: string
  ex_notes :: string

record day_workout =
  focus :: string
  exercises :: "exercise_config list"

record week_plan =
  week :: int
  is_deload :: bool
  workouts :: "day_workout list"

record plan_preferences =
  pref_name :: "string option"
  goal :: string
  duration :: int
  workouts_per_week :: int
  equipment_access :: "string list"
  limitations :: "string list"

record complete_plan =
  plan_name :: string
  plan_goal :: string
  duration_weeks :: int
  plan_workouts_per_week :: int
  plan_equipment :: "string list"
  weekly_schedule :: "week_plan list"
  created_date :: string
  last_updated :: string

subsection \<open>\<open>_determine_training_split\<close>\<close>

definition training_splits :: "((string \<times> int) \<times> string list) list" where
  "training_splits =
    [((''Sports and Athletics'', 2), [''Full Body'', ''Full Body'']),
     ((''Sports and Athletics'', 3), [''Upper Body'', ''Lower Body'', ''Full Body'']),
     ((''Sports and Athletics'', 4),
        [''Upper Body'', ''Lower Body'', ''Cardio/Plyometrics'', ''Sport Specific'']),
     ((''Sports and Athletics'', 5),
        [''Upper Push'', ''Lower Pull'', ''Rest/Recovery'', ''Upper Pull'', ''Lower Push'']),
     ((''Body Building'', 3), [''Push'', ''Pull'', ''Legs'']),
     ((''Body Building'', 4), [''Upper Body'', ''Lower Body'', ''Upper Body'', ''Lower Body'']),
     ((''Body Building'', 5),
        [''Chest/Triceps'', ''Back/Biceps'', ''Legs/Shoulders'', ''Upper Body'', ''Lower Body'']),
     ((''Body Building'', 6), [''Push'', ''Pull'', ''Legs'', ''Push'', ''Pull'', ''Legs'']),
     ((''Body Weight Fitness'', 2), [''Upper Body'', ''Lower Body'']),
     ((''Body Weight Fitness'', 3), [''Push'', ''Pull'', ''Legs/Core'']),
     ((''Body Weight Fitness'', 4),
        [''Horizontal Push/Pull'', ''Legs'', ''Vertical Push/Pull'', ''Core/Conditioning'']),
     ((''Weight Loss'', 2), [''Full Body + HIIT'', ''Full Body + Steady Cardio'']),
     ((''Weight Loss'', 3),
        [''Upper Body + HIIT'', ''Lower Body + HIIT'', ''Full Body + Steady Cardio'']),
     ((''Weight Loss'', 4),
        [''Upper Push + HIIT'', ''Lower Body + Steady Cardio'', ''Upper Pull + HIIT'',
         ''Full Body Circuit'']),
     ((''Mobility Exclusive'', 2), [''Upper Body Mobility'', ''Lower Body Mobility'']),
     ((''Mobility Exclusive'', 3), [''Dynamic Mobility'', ''Static Stretching'', ''Joint Mobility'']),
     ((''Mobility Exclusive'', 4),
        [''Upper Body Mobility'', ''Lower Body Mobility'', ''Full Body Flow'', ''Targeted Rehab''])]"

definition default_splits :: "(int \<times> string list) list" where
  "default_splits =
    [(1, [''Full Body'']),
     (2, [''Upper Body'', ''Lower Body'']),
     (3, [''Push'', ''Pull'', ''Legs'']),
     (4, [''Upper Body'', ''Lower Body'', ''Upper Body'', ''Lower Body'']),
     (5, [''Chest/Triceps'', ''Back/Biceps'', ''Legs'', ''Shoulders/Arms'', ''Full Body'']),
     (6, [''Push'', ''Pull'', ''Legs'', ''Push'', ''Pull'', ''Legs'']),
     (7, [''Chest'', ''Back'', ''Legs'', ''Shoulders'', ''Arms'', ''Full Body'', ''Active Recovery''])]"

text \<open>
  \<open>["Full Body"] * n\<close> is the empty list for \<open>n \<le> 0\<close>; \<open>nat\<close> maps those to 0.
\<close>

definition determine_training_split :: "int \<Rightarrow> string \<Rightarrow> string list" where
  "determine_training_split workouts_per_week0 goal0 =
     (let workouts_per_week1 = (if workouts_per_week0 > 7 then 7 else workouts_per_week0);
          split_key = (goal0, workouts_per_week1)
      in case map_of training_splits split_key of
           Some split \<Rightarrow> split
         | None \<Rightarrow>
             (case map_of default_splits workouts_per_week1 of
                Some split \<Rightarrow> split
              | None \<Rightarrow> replicate (nat workouts_per_week1) ''Full Body''))"

subsection \<open>\<open>_create_workout_schedule\<close> and its helpers\<close>

text \<open>
  \<open>intensity_mapping\<close> gives sets and reps per experience level; an unknown level reads
  the Beginner entry. Its third field, \<open>intensity\<close>, is never read and is left out.
\<close>

definition intensity_mapping :: "string \<Rightarrow> int \<times> string" where
  "intensity_mapping experience_level =
     (if experience_level = ''Intermediate'' then (4, ''8-10'')
      else if experience_level = ''Advanced'' then (5, ''6-12'')
      else (3, ''8-12''))"

definition determine_rest_period :: "string \<Rightarrow> string \<Rightarrow> string" where
  "determine_rest_period exercise_type goal0 =
     (if exercise_type = ''Compound'' then
        (if str_contains ''Strength'' goal0 \<or> str_contains ''Body Building'' goal0
         then ''2-3 minutes'' else ''60-90 seconds'')
      else if exercise_type = ''Isolation'' then
        (if str_contains ''Body Building'' goal0 then ''60-90 seconds'' else ''30-60 seconds'')
      else if exercise_type = ''Cardio'' then ''Minimal rest''
      else ''30 seconds'')"

definition determine_tempo :: "string \<Rightarrow> string \<Rightarrow> string" where
  "determine_tempo exercise_type goal0 =
     (if str_contains ''Strength'' goal0 then
        (if exercise_type = ''Compound'' then ''2-0-2'' else ''2-0-1'')
      else if str_contains ''Body Building'' goal0 then ''3-1-2''
      else if str_contains ''Sports'' goal0 then
        (if exercise_type = ''Compound'' then ''1-0-1'' else ''2-0-2'')
      else ''2-0-2'')"

text \<open>The body of the loop over the exercises of one day.\<close>

definition exercise_sets_reps :: "string \<Rightarrow> string \<Rightarrow> string \<Rightarrow> int \<times> string" where
  "exercise_sets_reps exercise_type experience_level goal0 =
     (let training_params = intensity_mapping experience_level in
      if exercise_type = ''Compound'' then
        (fst training_params,
         if str_contains ''Strength'' goal0 then snd training_params else ''8-12'')
      else if exercise_type = ''Isolation'' then
        (max 3 (fst training_params - 1),
         if str_contains ''Body Building'' goal0 then ''10-15'' else ''12-15'')
      else if exercise_type = ''Cardio'' then
        (1,
         show_int (15 + 5 * (if experience_level = ''Intermediate'' then 1 else 0)
                      + 10 * (if experience_level = ''Advanced'' then 1 else 0)) @ '' minutes'')
      else
        (if experience_level = ''Beginner'' then 2 else 3, ''30-60 seconds''))"

definition exercise_config_of :: "string \<Rightarrow> string \<Rightarrow> exercise \<Rightarrow> exercise_config" where
  "exercise_config_of experience_level goal0 e =
     (let sr = exercise_sets_reps (ex_type e) experience_level goal0 in
      \<lparr>config_id = ex_id e,
       title = ex_title e,
       sets = fst sr,
       reps = RepsStr (snd sr),
       rest = determine_rest_period (ex_type e) goal0,
       tempo = determine_tempo (ex_type e) goal0,
       ex_notes = (case instructions e of None \<Rightarrow> [] | Some t \<Rightarrow> t)\<rparr>)"

text \<open>
  The exercise catalogue is a collaborator: \<open>select\<close> stands for
  \<open>_select_exercises_for_focus\<close>, called with the focus, the equipment, the limitations,
  the experience level and the goal.
\<close>

type_synonym selector =
  "string \<Rightarrow> string list \<Rightarrow> string list \<Rightarrow> string \<Rightarrow> string \<Rightarrow> exercise list"

definition create_workout_schedule ::
  "selector \<Rightarrow> string list \<Rightarrow> string list \<Rightarrow> string list \<Rightarrow> string \<Rightarrow> string \<Rightarrow> day_workout list"
where
  "create_workout_schedule select training_split equip limits experience_level goal0 =
     map (\<lambda>day_focus.
            \<lparr>focus = day_focus,
             exercises = map (exercise_config_of experience_level goal0)
                           (select day_focus equip limits experience_level goal0)\<rparr>)
         training_split"

text \<open>
  The selector of planner.py itself: the per-category counts are adjusted by the goal and
  their sum cuts a fixed list of three sample exercises.
\<close>

definition exercise_count :: "string \<Rightarrow> string \<Rightarrow> int \<times> int \<times> int \<times> int" where
  "exercise_count experience_level goal0 =
     (let base = (if experience_level = ''Intermediate'' then (3, 3, 1, 1)
                  else if experience_level = ''Advanced'' then (4, 4, 1, 1)
                  else (2, 2, 1, 1))
      in case base of (compound, isolation, cardio, mobility) \<Rightarrow>
           if str_contains ''Body Building'' goal0 then (compound, isolation + 1, cardio, mobility)
           else if str_contains ''Sports'' goal0 then (compound + 1, isolation, cardio, mobility)
           else if str_contains ''Weight Loss'' goal0 then (compound, isolation, cardio + 1, mobility)
           else if str_contains ''Mobility'' goal0 then (compound - 1, isolation - 1, cardio, mobility + 2)
           else base)"

definition sample_exercises :: "exercise list" where
  "sample_exercises =
     [\<lparr>ex_id = 1, ex_title = ''Barbell Squat'', ex_type = ''Compound'', muscle_group = ''Legs'',
       equipment = ''Barbell'', level = ''Intermediate'', instructions = None\<rparr>,
      \<lparr>ex_id = 2, ex_title = ''Push-ups'', ex_type = ''Compound'', muscle_group = ''Chest'',
       equipment = ''Bodyweight'', level = ''Beginner'', instructions = None\<rparr>,
      \<lparr>ex_id = 3, ex_title = ''Bicep Curls'', ex_type = ''Isolation'', muscle_group = ''Arms'',
       equipment = ''Dumbbells'', level = ''Beginner'', instructions = None\<rparr>]"

text \<open>
  \<open>xs[:n]\<close>: the first \<open>n\<close> elements, and for a negative \<open>n\<close> all but the last \<open>-n\<close>.
\<close>

definition py_slice_to :: "'a list \<Rightarrow> int \<Rightarrow> 'a list" where
  "py_slice_to xs n = (if 0 \<le> n then take (nat n) xs else take (length xs - nat (- n)) xs)"

definition select_exercises_for_focus :: selector where
  "select_exercises_for_focus day_focus equip limits experience_level goal0 =
     (case exercise_count experience_level goal0 of
        (compound, isolation, cardio, mobility) \<Rightarrow>
          py_slice_to sample_exercises (compound + isolation + cardio + mobility))"

subsection \<open>\<open>_apply_progression\<close>\<close>

record progression_pattern =
  volume_increase :: rat
  intensity_increase :: rat
  deload_frequency :: int
  deload_reduction :: rat

definition progression_patterns :: "string \<Rightarrow> progression_pattern" where
  "progression_patterns experience_level =
     (if experience_level = ''Intermediate'' then
        \<lparr>volume_increase = 7 / 100, intensity_increase = 7 / 100,
         deload_frequency = 4, deload_reduction = 3 / 10\<rparr>
      else if experience_level = ''Advanced'' then
        \<lparr>volume_increase = 5 / 100, intensity_increase = 1 / 10,
         deload_frequency = 3, deload_reduction = 1 / 4\<rparr>
      else
        \<lparr>volume_increase = 1 / 10, intensity_increase = 5 / 100,
         deload_frequency = 4, deload_reduction = 4 / 10\<rparr>)"

text \<open>
  \<open>week_modifier\<close> is computed by the source in every week and never read afterwards.
\<close>

definition week_modifier :: "progression_pattern \<Rightarrow> int \<Rightarrow> bool \<Rightarrow> rat" where
  "week_modifier pattern week0 deload =
     (if deload then deload_reduction pattern
      else 1 + of_int (week0 mod deload_frequency pattern) *
                 (if week0 \<le> 2 then volume_increase pattern else intensity_increase pattern))"

definition big_lifts :: "string list" where
  "big_lifts = [''squat'', ''deadlift'', ''bench press'', ''overhead press'']"

text \<open>
  \<open>min_reps, max_reps = map(int, reps.split("-"))\<close>: exactly two parts, each an integer,
  or ValueError.
\<close>

definition parse_rep_range :: "string \<Rightarrow> py_error + (int \<times> int)" where
  "parse_rep_range s =
     (case map py_int (split_on CHR ''-'' s) of
        [Some a, Some b] \<Rightarrow> Inr (a, b)
      | _ \<Rightarrow> Inl ValueError)"

definition format_range :: "int \<Rightarrow> int \<Rightarrow> string" where
  "format_range a b = show_int a @ ''-'' @ show_int b"

text \<open>The test \<open>isinstance(reps, str) and "-" in reps\<close>.\<close>

definition is_range_string :: "reps_value \<Rightarrow> bool" where
  "is_range_string r = (case r of RepsInt _ \<Rightarrow> False | RepsStr s \<Rightarrow> CHR ''-'' \<in> set s)"

definition reps_string :: "reps_value \<Rightarrow> string" where
  "reps_string r = (case r of RepsInt _ \<Rightarrow> [] | RepsStr s \<Rightarrow> s)"

text \<open>
  The body of the innermost loop: one exercise of one day in one week. The copy
  \<open>exercise_copy\<close> starts as the base exercise; reads of \<open>exercise\<close> are reads of the
  base. In a deload week the product \<open>sets * 0.6\<close> is taken exactly, as \<open>sets * 6 / 10\<close>.
\<close>

definition odd_week_exercise :: "int \<Rightarrow> exercise_config \<Rightarrow> py_error + exercise_config" where
  "odd_week_exercise week0 e =
     (let copy1 = (if week0 > 2 \<and> str_lower (title e) \<in> set big_lifts
                   then e\<lparr>sets := min (sets e + 1) 6\<rparr> else e)
      in if is_range_string (reps e) then
           (case parse_rep_range (reps_string (reps e)) of
              Inl err \<Rightarrow> Inl err
            | Inr (min_reps, max_reps) \<Rightarrow>
                Inr (copy1\<lparr>reps := RepsStr (format_range (min (min_reps + 1) max_reps)
                                                          (min (max_reps + 2) 20))\<rparr>))
         else Inr copy1)"

definition even_week_exercise :: "string \<Rightarrow> exercise_config \<Rightarrow> exercise_config" where
  "even_week_exercise experience_level e =
     e\<lparr>ex_notes := ex_notes e @ '' Increase weight by '' @
          show_int (5 + 5 * (if experience_level \<noteq> ''Beginner'' then 1 else 0)) @
          ''% from previous week.''\<rparr>"

definition deload_exercise :: "exercise_config \<Rightarrow> py_error + exercise_config" where
  "deload_exercise e =
     (let copy1 = e\<lparr>sets := max 2 (py_trunc (of_int (sets e) * (6 / 10)))\<rparr>;
          deload_note = '' DELOAD WEEK: Reduce weights by 10-15% but maintain good form.''
      in if is_range_string (reps e) then
           (case parse_rep_range (reps_string (reps e)) of
              Inl err \<Rightarrow> Inl err
            | Inr (min_reps, max_reps) \<Rightarrow>
                Inr (copy1\<lparr>reps := RepsStr (format_range min_reps (min_reps + 2)),
                           ex_notes := ex_notes e @ deload_note\<rparr>))
         else Inr (copy1\<lparr>ex_notes := ex_notes e @ deload_note\<rparr>))"

definition progress_exercise ::
  "int \<Rightarrow> bool \<Rightarrow> string \<Rightarrow> exercise_config \<Rightarrow> py_error + exercise_config"
where
  "progress_exercise week0 deload experience_level e =
     (if \<not> deload then
        (if week0 mod 2 = 1 then odd_week_exercise week0 e
         else Inr (even_week_exercise experience_level e))
      else deload_exercise e)"

definition progress_day ::
  "int \<Rightarrow> bool \<Rightarrow> string \<Rightarrow> day_workout \<Rightarrow> py_error + day_workout"
where
  "progress_day week0 deload experience_level day_plan =
     (case map_result (progress_exercise week0 deload experience_level) (exercises day_plan) of
        Inl err \<Rightarrow> Inl err
      | Inr es \<Rightarrow> Inr \<lparr>focus = focus day_plan, exercises = es\<rparr>)"

definition week_is_deload :: "string \<Rightarrow> int \<Rightarrow> bool" where
  "week_is_deload experience_level week0 =
     (week0 mod deload_frequency (progression_patterns experience_level) = 0)"

definition progress_week ::
  "day_workout list \<Rightarrow> string \<Rightarrow> int \<Rightarrow> py_error + week_plan"
where
  "progress_week workout_schedule experience_level week0 =
     (let deload = week_is_deload experience_level week0 in
      case map_result (progress_day week0 deload experience_level) workout_schedule of
        Inl err \<Rightarrow> Inl err
      | Inr week_days \<Rightarrow> Inr \<lparr>week = week0, is_deload = deload, workouts = week_days\<rparr>)"

text \<open>\<open>range(1, duration_weeks + 1)\<close> is the list \<open>[1..duration_weeks]\<close>.\<close>

definition apply_progression ::
  "day_workout list \<Rightarrow> int \<Rightarrow> string \<Rightarrow> py_error + week_plan list"
where
  "apply_progression workout_schedule duration_weeks0 experience_level =
     map_result (progress_week workout_schedule experience_level) [1..duration_weeks0]"

subsection \<open>\<open>generate_plan\<close>\<close>

definition add_deload_weeks :: "week_plan list \<Rightarrow> int \<Rightarrow> week_plan list" where
  "add_deload_weeks progressive_plan duration_weeks0 = progressive_plan"

text \<open>
  planner.py imports nothing. \<open>_structure_complete_plan\<close> evaluates the entries of the
  dictionary it returns in order, and the entry \<open>created_date\<close> calls \<open>datetime.now()\<close>:
  the name \<open>datetime\<close> is not defined in the module, so the call raises NameError and
  no dictionary is returned.
\<close>

definition structure_complete_plan ::
  "week_plan list \<Rightarrow> plan_preferences \<Rightarrow> py_error + complete_plan"
where
  "structure_complete_plan progressive_plan prefs = Inl NameError"

text \<open>
  \<open>user_level\<close> is \<open>user_details.get('experience_level')\<close>, \<open>None\<close> when the key is
  absent.
\<close>

definition generate_plan ::
  "selector \<Rightarrow> string option \<Rightarrow> plan_preferences \<Rightarrow> py_error + complete_plan"
where
  "generate_plan select user_level prefs =
     (let experience_level = (case user_level of None \<Rightarrow> ''Beginner'' | Some l \<Rightarrow> l);
          training_split = determine_training_split (workouts_per_week prefs) (goal prefs);
          workout_schedule = create_workout_schedule select training_split
                               (equipment_access prefs) (limitations prefs)
                               experience_level (goal prefs)
      in case apply_progression workout_schedule (duration prefs) experience_level of
           Inl err \<Rightarrow> Inl err
         | Inr progressive_plan \<Rightarrow>
             structure_complete_plan
               (if duration prefs > 4 then add_deload_weeks progressive_plan (duration prefs)
                else progressive_plan)
               prefs)"

section \<open>The database\<close>

text \<open>
  The tables carry the columns that the queries of Engine.py and progresstracker.py
  name. A date is the number of days since 1970-01-01, so that comparing dates, taking
  their difference and stepping back some days are integer operations. The rows of the
  table \<open>exercises\<close> are the records of type \<open>exercise\<close>; an empty \<open>muscle_group\<close>
  stands for a missing one.
\<close>

record fitness_plan_row =
  fp_id :: int
  fp_user_id :: int
  fp_goal :: string
  fp_created_date :: int
  fp_is_active :: bool

record plan_workout_row =
  pw_id :: int
  pw_plan_id :: int
  pw_week :: int
  pw_day :: int
  pw_exercise_id :: int
  pw_title :: string

record workout_log_row =
  wl_workout_id :: int
  wl_user_id :: int
  wl_date :: int
  wl_sets :: int
  wl_reps :: int
  wl_weight :: rat

record progression_row =
  pt_user_id :: int
  pt_exercise_id :: int
  pt_date :: int
  pt_one_rep_max :: rat
  pt_volume_total :: rat
  progress_rating :: int

record database =
  fitness_plans :: "fitness_plan_row list"
  plan_workouts :: "plan_workout_row list"
  workout_logs :: "workout_log_row list"
  exercise_table :: "exercise list"
  progression_tracking :: "progression_row list"

text \<open>
  The sources of arbitrary choice: the row that \<open>ORDER BY RANDOM() LIMIT 1\<close> returns (an
  index, taken modulo the number of candidate rows), the template \<open>random.choice\<close>
  returns, and the order \<open>ORDER BY RANDOM()\<close> gives to a list of exercises.
\<close>

record random_source =
  pick_alternative :: nat
  pick_recovery :: nat
  shuffle_exercises :: "exercise list \<Rightarrow> exercise list"

definition random_row :: "nat \<Rightarrow> 'a list \<Rightarrow> 'a option" where
  "random_row k rows = (if rows = [] then None else Some (rows ! (k mod length rows)))"

section \<open>Engine.py: WorkoutRecommender\<close>

record workout_option =
  option_title :: string
  option_description :: string
  option_exercises :: "(string \<times> string) list"

record workout_detail =
  detail_row :: plan_workout_row
  detail_exercise_type :: string
  detail_equipment :: string
  detail_muscle_group :: string
  detail_level :: string

text \<open>
  The dictionaries \<open>get_daily_recommendation\<close> returns, by their \<open>type\<close>; the first
  field is the message. \<open>DefaultWorkout\<close> is the result of \<open>_generate_default_workout\<close>,
  whose body is \<open>pass\<close>.
\<close>

datatype response =
    DefaultWorkout
  | Recovery string workout_option
  | Alternative string string "plan_workout_row list"
  | Completed string workout_option
  | Scheduled string "workout_detail list" "string list" "(string \<times> string) list"

definition response_type :: "response \<Rightarrow> string option" where
  "response_type r =
     (case r of
        DefaultWorkout \<Rightarrow> None
      | Recovery _ _ \<Rightarrow> Some ''recovery''
      | Alternative _ _ _ \<Rightarrow> Some ''alternative''
      | Completed _ _ \<Rightarrow> Some ''completed''
      | Scheduled _ _ _ _ \<Rightarrow> Some ''scheduled'')"

definition get_active_plans :: "database \<Rightarrow> fitness_plan_row list" where
  "get_active_plans db = filter fp_is_active (fitness_plans db)"

text \<open>\<open>today.weekday()\<close>: Monday is 0; day 0 is a Thursday.\<close>

definition weekday_of :: "int \<Rightarrow> int" where
  "weekday_of d = (d + 3) mod 7"

definition needs_recovery :: "database \<Rightarrow> int \<Rightarrow> int \<Rightarrow> bool" where
  "needs_recovery db today user_id =
     (let three_days_ago = today - 3;
          recent_workout_count =
            length (filter (\<lambda>wl. wl_date wl \<ge> three_days_ago \<and> wl_user_id wl = user_id)
                      (workout_logs db))
      in recent_workout_count > 5)"

definition recovery_options :: "workout_option list" where
  "recovery_options =
     [\<lparr>option_title = ''Active Recovery'',
       option_description = ''Low-intensity movement to promote recovery'',
       option_exercises =
         [(''Light Walking'', ''Walk at an easy pace for 20-30 minutes''),
          (''Dynamic Stretching'', ''Full body dynamic stretches, 30 seconds each movement''),
          (''Foam Rolling'', ''Roll major muscle groups, 1 minute per area'')]\<rparr>,
      \<lparr>option_title = ''Mobility Focus'',
       option_description = ''Improve joint mobility and flexibility'',
       option_exercises =
         [(''Hip Mobility Flow'', ''5 minutes of hip circles, lunges, and squats''),
          (''Shoulder Mobility'', ''Arm circles, wall slides, and band pull-aparts''),
          (''Ankle Mobility'', ''Ankle circles, calf stretches, and toe raises'')]\<rparr>,
      \<lparr>option_title = ''Light Cardio'',
       option_description = ''Improve circulation without muscle stress'',
       option_exercises =
         [(''Easy Cycling'', ''15-20 minutes at low resistance''),
          (''Swimming'', ''Easy laps for 10-15 minutes, focus on technique''),
          (''Elliptical'', ''10-15 minutes at low intensity'')]\<rparr>]"

definition generate_recovery_workout :: "random_source \<Rightarrow> response" where
  "generate_recovery_workout rnd =
     Recovery ''You've been working hard! Here's a recovery workout:''
       (recovery_options ! (pick_recovery rnd mod 3))"

definition get_exercises_for_muscle_group ::
  "database \<Rightarrow> random_source \<Rightarrow> string \<Rightarrow> nat \<Rightarrow> (string \<times> string) list"
where
  "get_exercises_for_muscle_group db rnd muscle count0 =
     map (\<lambda>ex. (ex_title ex, case instructions ex of None \<Rightarrow> [] | Some t \<Rightarrow> t))
       (take count0 (shuffle_exercises rnd
          (filter (\<lambda>e. muscle_group e = muscle) (exercise_table db))))"

text \<open>
  The three-table join of workout logs, plan workouts and exercises, as pairs of a log
  and the exercise it belongs to.
\<close>

definition logged_exercises ::
  "database \<Rightarrow> (workout_log_row \<times> plan_workout_row \<times> exercise) list"
where
  "logged_exercises db =
     concat (map (\<lambda>wl.
       concat (map (\<lambda>pw.
         map (\<lambda>e. (wl, pw, e))
           (filter (\<lambda>e. pw_exercise_id pw = ex_id e) (exercise_table db)))
         (filter (\<lambda>pw. wl_workout_id wl = pw_id pw) (plan_workouts db))))
       (workout_logs db))"

definition get_recent_muscle_groups :: "database \<Rightarrow> int \<Rightarrow> int \<Rightarrow> int \<Rightarrow> string list" where
  "get_recent_muscle_groups db today user_id days =
     (let cutoff_date = today - days;
          user_plans = map fp_id (filter (\<lambda>fp. fp_user_id fp = user_id) (fitness_plans db))
      in filter (\<lambda>m. m \<noteq> [])
           (remdups (map (\<lambda>(wl, pw, e). muscle_group e)
              (filter (\<lambda>(wl, pw, e). wl_date wl \<ge> cutoff_date \<and> pw_plan_id pw \<in> set user_plans)
                 (logged_exercises db)))))"

definition generate_bonus_workout ::
  "database \<Rightarrow> int \<Rightarrow> random_source \<Rightarrow> int \<Rightarrow> workout_option"
where
  "generate_bonus_workout db today rnd plan_id0 =
     (let goal0 = (case find (\<lambda>fp. fp_id fp = plan_id0) (fitness_plans db) of
                     None \<Rightarrow> ''General Fitness'' | Some plan \<Rightarrow> fp_goal plan);
          recent_muscles = get_recent_muscle_groups db today 1 2
      in if str_contains ''Body Building'' goal0 then
           (let potential_groups = [''Arms'', ''Shoulders'', ''Calves'', ''Abs''];
                target_group = (case find (\<lambda>g. g \<notin> set recent_muscles) potential_groups of
                                  None \<Rightarrow> ''Arms'' | Some g \<Rightarrow> g)
            in \<lparr>option_title = target_group @ '' Specialization'',
                option_description = ''Focus on '' @ target_group @ '' with high volume'',
                option_exercises = get_exercises_for_muscle_group db rnd target_group 4\<rparr>)
         else if str_contains ''Weight Loss'' goal0 then
           \<lparr>option_title = ''Calorie Burner'',
            option_description = ''High-intensity interval training to burn extra calories'',
            option_exercises =
              [(''HIIT Circuit'', ''30 seconds work, 15 seconds rest for 5 exercises, 4 rounds''),
               (''Jump Rope'', ''3 sets of 1 minute fast jumping''),
               (''Mountain Climbers'', ''3 sets of 30 seconds'')]\<rparr>
         else
           \<lparr>option_title = ''Core & Mobility'',
            option_description = ''Strengthen your core and improve overall mobility'',
            option_exercises =
              [(''Plank Variations'', ''3 sets of 30-45 seconds each variation''),
               (''Russian Twists'', ''3 sets of 20 reps''),
               (''Hip Mobility Flow'', ''5 minutes of dynamic hip movements'')]\<rparr>)"

definition max_date :: "int list \<Rightarrow> int option" where
  "max_date ds = (case ds of [] \<Rightarrow> None | d # rest0 \<Rightarrow> Some (fold max rest0 d))"

definition get_muscle_recovery_status :: "database \<Rightarrow> int \<Rightarrow> int \<Rightarrow> (string \<times> string) list" where
  "get_muscle_recovery_status db today user_id =
     map (\<lambda>muscle.
            (muscle,
             case max_date (map (\<lambda>(wl, pw, e). wl_date wl)
                    (filter (\<lambda>(wl, pw, e). muscle_group e = muscle \<and> wl_user_id wl = user_id)
                       (logged_exercises db))) of
               None \<Rightarrow> ''Ready''
             | Some last_trained \<Rightarrow> show_int (today - last_trained) @ '' days''))
       [''Chest'', ''Back'', ''Legs'', ''Shoulders'', ''Arms'', ''Core'']"

definition day_names :: "(int \<times> string) list" where
  "day_names =
     [(1, ''Monday''), (2, ''Tuesday''), (3, ''Wednesday''), (4, ''Thursday''),
      (5, ''Friday''), (6, ''Saturday''), (7, ''Sunday'')]"

definition scheduled_on :: "database \<Rightarrow> int \<Rightarrow> int \<Rightarrow> int \<Rightarrow> plan_workout_row list" where
  "scheduled_on db plan_id0 week0 day =
     filter (\<lambda>pw. pw_plan_id pw = plan_id0 \<and> pw_week pw = week0 \<and> pw_day pw = day)
       (plan_workouts db)"

definition logged_today :: "database \<Rightarrow> int \<Rightarrow> plan_workout_row \<Rightarrow> bool" where
  "logged_today db today workout =
     (length (filter (\<lambda>wl. wl_workout_id wl = pw_id workout \<and> wl_date wl = today)
                (workout_logs db)) > 0)"

text \<open>
  The loop \<open>for workout in workouts: if ...: workouts.remove(workout)\<close>. The iterator of a
  Python list is an index into the list: each step reads the element at the index, if
  there is one, and moves the index on by one, also when the body has just removed an
  element. \<open>remove\<close> deletes the first element equal to its argument.
\<close>

function remove_while_iterating ::
  "(plan_workout_row \<Rightarrow> bool) \<Rightarrow> nat \<Rightarrow> plan_workout_row list \<Rightarrow> plan_workout_row list"
where
  "remove_while_iterating done0 i ws =
     (if i < length ws then
        (if done0 (ws ! i) then remove_while_iterating done0 (Suc i) (remove1 (ws ! i) ws)
         else remove_while_iterating done0 (Suc i) ws)
      else ws)"
  by pat_completeness auto
termination
  by (relation "measure (\<lambda>(done0, i, ws). length ws - i)") (auto simp: length_remove1)

declare remove_while_iterating.simps [simp del]

definition workout_details :: "database \<Rightarrow> plan_workout_row list \<Rightarrow> workout_detail list" where
  "workout_details db ws =
     concat (map (\<lambda>workout.
       case find (\<lambda>e. ex_id e = pw_exercise_id workout) (exercise_table db) of
         None \<Rightarrow> []
       | Some ex \<Rightarrow>
           [\<lparr>detail_row = workout, detail_exercise_type = ex_type ex,
             detail_equipment = equipment ex, detail_muscle_group = muscle_group ex,
             detail_level = level ex\<rparr>]) ws)"

text \<open>
  \<open>ORDER BY date DESC LIMIT 1\<close>: a row of the latest date, the first such row of the
  table where several share it.
\<close>

definition latest_rating :: "database \<Rightarrow> int \<Rightarrow> int \<Rightarrow> int option" where
  "latest_rating db user_id exercise_id0 =
     (let rows = filter (\<lambda>r. pt_user_id r = user_id \<and> pt_exercise_id r = exercise_id0)
                   (progression_tracking db)
      in case max_date (map pt_date rows) of
           None \<Rightarrow> None
         | Some d \<Rightarrow> map_option progress_rating (find (\<lambda>r. pt_date r = d) rows))"

definition adjustments_for :: "database \<Rightarrow> int \<Rightarrow> workout_detail list \<Rightarrow> string list" where
  "adjustments_for db user_id result_workouts =
     concat (map (\<lambda>workout.
       case latest_rating db user_id (pw_exercise_id (detail_row workout)) of
         None \<Rightarrow> []
       | Some rating \<Rightarrow>
           if rating > 3 then
             [''Increase weight for '' @ pw_title (detail_row workout) @ '' by 5-10% today'']
           else if rating < - 2 then
             [''Try different rep range for '' @ pw_title (detail_row workout) @
              '' today (e.g., 5x5 instead of 3x10)'']
           else []) result_workouts)"

text \<open>
  The part of \<open>get_daily_recommendation\<close> after the branch for a day without workouts:
  the removal loop, then the completed or the scheduled response.
\<close>

definition after_removal ::
  "database \<Rightarrow> int \<Rightarrow> random_source \<Rightarrow> int \<Rightarrow> int \<Rightarrow> plan_workout_row list \<Rightarrow> response"
where
  "after_removal db today rnd user_id plan_id0 workouts0 =
     (let remaining = remove_while_iterating (logged_today db today) 0 workouts0 in
      if remaining = [] then
        Completed
          ''You've completed all scheduled workouts for today! Would you like a bonus workout?''
          (generate_bonus_workout db today rnd plan_id0)
      else
        (let result_workouts = workout_details db remaining in
         Scheduled ''Here's your workout for today:'' result_workouts
           (adjustments_for db user_id result_workouts)
           (get_muscle_recovery_status db today user_id)))"

text \<open>
  \<open>plan_id\<close> is optional, and \<open>not plan_id\<close> also holds for the identifier 0:
  \<open>resolved_plan_id\<close> is the value of \<open>plan_id\<close> after the first \<open>if\<close>.
\<close>

definition resolved_plan_id :: "database \<Rightarrow> int option \<Rightarrow> int option" where
  "resolved_plan_id db plan_id0 =
     (let active_plans = get_active_plans db in
      if (plan_id0 = None \<or> plan_id0 = Some 0) \<and> active_plans \<noteq> []
      then (case active_plans of [] \<Rightarrow> plan_id0 | p # _ \<Rightarrow> Some (fp_id p))
      else plan_id0)"

definition current_week_of :: "fitness_plan_row \<Rightarrow> int \<Rightarrow> int" where
  "current_week_of plan_start today =
     (let days_since_start = today - fp_created_date plan_start in days_since_start div 7 + 1)"

definition week_workouts :: "database \<Rightarrow> int \<Rightarrow> int \<Rightarrow> plan_workout_row list" where
  "week_workouts db plan_id0 week0 =
     filter (\<lambda>pw. pw_plan_id pw = plan_id0 \<and> pw_week pw = week0) (plan_workouts db)"

definition alternative_message :: "string \<Rightarrow> string" where
  "alternative_message day_name =
     ''No workout scheduled for today. Here's your '' @ day_name @ '' workout instead:''"

text \<open>
  A day number outside 1..7 in the alternative row makes the lookup in \<open>day_names\<close>
  raise KeyError. When the week has no workout at all, \<open>alternative\<close> is \<open>None\<close> and
  control falls through to the removal loop with an empty list.
\<close>

definition get_daily_recommendation ::
  "database \<Rightarrow> int \<Rightarrow> random_source \<Rightarrow> int \<Rightarrow> int option \<Rightarrow> py_error + response"
where
  "get_daily_recommendation db today rnd user_id plan_id0 =
     (case resolved_plan_id db plan_id0 of
        None \<Rightarrow> Inr DefaultWorkout
      | Some pid \<Rightarrow>
          if pid = 0 then Inr DefaultWorkout
          else
            (case find (\<lambda>fp. fp_id fp = pid) (fitness_plans db) of
               None \<Rightarrow> Inr DefaultWorkout
             | Some plan_start \<Rightarrow>
                 (let weekday = weekday_of today + 1;
                      current_week = current_week_of plan_start today;
                      workouts0 = scheduled_on db pid current_week weekday
                  in if workouts0 = [] \<and> needs_recovery db today user_id then
                       Inr (generate_recovery_workout rnd)
                     else
                       (case (if workouts0 = []
                              then random_row (pick_alternative rnd)
                                     (week_workouts db pid current_week)
                              else None) of
                          Some alternative \<Rightarrow>
                            (case map_of day_names (pw_day alternative) of
                               None \<Rightarrow> Inl KeyError
                             | Some day_name \<Rightarrow>
                                 Inr (Alternative (alternative_message day_name) day_name
                                        (scheduled_on db pid current_week (pw_day alternative))))
                        | None \<Rightarrow> Inr (after_removal db today rnd user_id pid workouts0)))))"

section \<open>progresstracker.py: ProgressTracker\<close>

text \<open>
  Weights, volumes and trends are floats in the source and exact rationals here.
\<close>

definition calculate_one_rep_max :: "rat \<Rightarrow> int \<Rightarrow> rat" where
  "calculate_one_rep_max weight0 reps0 =
     (if reps0 = 1 then weight0
      else if reps0 > 36 then weight0 * 2
      else weight0 * (36 / of_int (37 - reps0)))"

text \<open>
  \<open>np.polyfit\<close> belongs to numpy and computes in floating point. \<open>polyfit\<close> stands for
  the first of the two numbers \<open>np.polyfit(np.arange(len(series)), series.values, 1)\<close>
  returns, the slope, as a function of the series. The quotient and the product of the
  last line are taken exactly; in floating point they are rounded, which does not
  change their sign.
\<close>

definition calculate_trend :: "(rat list \<Rightarrow> rat) \<Rightarrow> rat list \<Rightarrow> rat" where
  "calculate_trend polyfit series =
     (if length series < 2 then 0
      else (let slope = polyfit series in
            case series of
              [] \<Rightarrow> 0
            | first # _ \<Rightarrow> if first > 0 then (slope / first) * 100 else 0))"

text \<open>
  The sums of the closed form of a least-squares line over the index 0, 1, ..., n - 1.
\<close>

definition index_values :: "nat \<Rightarrow> rat list" where
  "index_values n = map of_nat [0..<n]"

definition slope_numerator :: "rat list \<Rightarrow> rat" where
  "slope_numerator ys =
     of_nat (length ys) * sum_list (map2 (*) (index_values (length ys)) ys)
       - sum_list (index_values (length ys)) * sum_list ys"

definition slope_denominator :: "nat \<Rightarrow> rat" where
  "slope_denominator n =
     of_nat n * sum_list (map (\<lambda>x. x * x) (index_values n))
       - sum_list (index_values n) * sum_list (index_values n)"

text \<open>
  Modelled from the spec: numpy's fit is not part of the repository. Section 4.6 of the
  specification calls it the least-squares slope against the index 0, 1, ..., n - 1.
  \<open>least_squares_slope\<close> is that slope in exact arithmetic,
  \<open>(n \<Sum>xy - \<Sum>x \<Sum>y) / (n \<Sum>x\<^sup>2 - (\<Sum>x)\<^sup>2)\<close>; the number numpy returns is
  a floating-point approximation of it and need not be equal to it.
\<close>

definition least_squares_slope :: "rat list \<Rightarrow> rat" where
  "least_squares_slope ys = slope_numerator ys / slope_denominator (length ys)"

record progression_metrics =
  strength_change_pct :: rat
  volume_change_pct :: rat
  strength_trend :: rat
  volume_trend :: rat
  consistency :: rat

text \<open>
  \<open>int(progression['strength_trend'] / 5)\<close> truncates the float quotient toward zero.
  The quotient is taken exactly here. The float quotient of a finite float by 5 is the
  double nearest to the exact quotient, and rounding to it never carries the quotient
  onto or across the next integer away from zero, so both truncate to the same integer.
\<close>

definition save_progression_data ::
  "database \<Rightarrow> int \<Rightarrow> int \<Rightarrow> int \<Rightarrow> rat \<Rightarrow> rat \<Rightarrow> progression_metrics \<Rightarrow> database"
where
  "save_progression_data db today user_id exercise_id0 one_rep_max0 volume0 progression0 =
     (let rating = min 5 (max (- 5) (py_trunc (strength_trend progression0 / 5))) in
      db\<lparr>progression_tracking := progression_tracking db @
           [\<lparr>pt_user_id = user_id, pt_exercise_id = exercise_id0, pt_date = today,
             pt_one_rep_max = one_rep_max0, pt_volume_total = volume0,
             progress_rating = rating\<rparr>]\<rparr>)"

definition mean :: "rat list \<Rightarrow> rat" where
  "mean xs = sum_list xs / of_nat (length xs)"

definition generate_recommendations :: "progression_metrics \<Rightarrow> workout_log_row list \<Rightarrow> string list" where
  "generate_recommendations progression0 logs =
     (let reps_mean = mean (map (\<lambda>wl. of_int (wl_reps wl)) logs) in
      (if strength_trend progression0 < - 2 then
         [''Strength is declining. Consider reducing volume and focusing on quality sets.'']
       else if strength_trend progression0 < 0 then
         [''Strength progress has plateaued. Try varying rep ranges or adding an intensity technique.'']
       else if strength_trend progression0 > 5 then
         [''Great strength progress! Consider slightly increasing weight on your next session.'']
       else []) @
      (if volume_trend progression0 < - 5 then
         [''Training volume has decreased significantly. Are you getting enough recovery?'']
       else if volume_trend progression0 > 10 then
         [''Volume is increasing well. Ensure you're maintaining good form with the increased workload.'']
       else []) @
      (if consistency progression0 < 1 / 2 then
         [''Consider increasing training frequency for better progress.'']
       else []) @
      (if reps_mean > 15 then
         [''Your rep ranges are high. For strength, consider including some lower rep sets (4-6 reps).'']
       else if reps_mean < 5 then
         [''Your rep ranges are low. For muscle growth, include some moderate rep sets (8-12 reps).'']
       else []))"

text \<open>
  The query of \<open>analyze_workout_history\<close>: logs joined to their plan workout and its
  plan, of one user and one exercise, not older than the cutoff, ordered by date.
\<close>

definition history_logs :: "database \<Rightarrow> int \<Rightarrow> int \<Rightarrow> int \<Rightarrow> workout_log_row list" where
  "history_logs db user_id exercise_id0 cutoff_date =
     sort_key wl_date
       (concat (map (\<lambda>wl.
          concat (map (\<lambda>pw.
            map (\<lambda>fp. wl)
              (filter (\<lambda>fp. pw_plan_id pw = fp_id fp \<and> fp_user_id fp = user_id)
                 (fitness_plans db)))
            (filter (\<lambda>pw. wl_workout_id wl = pw_id pw \<and> pw_exercise_id pw = exercise_id0)
               (plan_workouts db))))
          (filter (\<lambda>wl. wl_date wl \<ge> cutoff_date) (workout_logs db))))"

definition max_of :: "rat list \<Rightarrow> rat" where
  "max_of xs = (case xs of [] \<Rightarrow> 0 | x # rest0 \<Rightarrow> fold max rest0 x)"

text \<open>
  The data frame \<open>daily_stats\<close>: the dates as index, in order, and the columns by name,
  each with one value per date. \<open>groupby('date').agg(...)\<close> gives one column per pair
  of a column of the logs and an aggregation, and the next statement of the source
  renames each column to the two names of its pair joined by an underscore.
\<close>

record daily_stats =
  stats_index :: "int list"
  stats_columns :: "(string \<times> rat list) list"

definition aggregations :: "(string \<times> string) list" where
  "aggregations =
     [(''one_rep_max'', ''max''), (''volume'', ''sum''), (''sets'', ''sum''),
      (''reps'', ''mean''), (''reps'', ''sum'')]"

definition log_value :: "string \<Rightarrow> workout_log_row \<Rightarrow> rat" where
  "log_value name wl =
     (if name = ''one_rep_max'' then calculate_one_rep_max (wl_weight wl) (wl_reps wl)
      else if name = ''volume'' then of_int (wl_sets wl) * of_int (wl_reps wl) * wl_weight wl
      else if name = ''sets'' then of_int (wl_sets wl)
      else of_int (wl_reps wl))"

definition aggregate :: "string \<Rightarrow> rat list \<Rightarrow> rat" where
  "aggregate how values =
     (if how = ''max'' then max_of values
      else if how = ''sum'' then sum_list values
      else mean values)"

definition daily_stats_of :: "workout_log_row list \<Rightarrow> daily_stats" where
  "daily_stats_of logs =
     (let dates = sort (remdups (map wl_date logs)) in
      \<lparr>stats_index = dates,
       stats_columns =
         map (\<lambda>col.
                (str_strip (fst col @ ''_'' @ snd col),
                 map (\<lambda>d. aggregate (snd col)
                             (map (log_value (fst col)) (filter (\<lambda>wl. wl_date wl = d) logs)))
                   dates))
           aggregations\<rparr>)"

text \<open>\<open>daily_stats[name]\<close>: the column of that name, or KeyError.\<close>

definition column :: "daily_stats \<Rightarrow> string \<Rightarrow> py_error + rat list" where
  "column stats name =
     (case map_of (stats_columns stats) name of
        None \<Rightarrow> Inl KeyError
      | Some values \<Rightarrow> Inr values)"

record analysis_result =
  history_length_days :: int
  workout_count :: nat
  current_1rm :: rat
  best_1rm :: rat
  best_workout_date :: int
  average_volume :: rat
  progression :: progression_metrics
  recommendations :: "string list"

text \<open>The returned dictionary, by its \<open>status\<close>.\<close>

datatype analysis = NoData string | Success analysis_result

definition analysis_status :: "analysis \<Rightarrow> string" where
  "analysis_status a = (case a of NoData _ \<Rightarrow> ''No data'' | Success _ \<Rightarrow> ''success'')"

text \<open>
  The analysis of a non-empty list of logs. After the renaming the source reads the
  columns \<open>one_rep_max\<close> and \<open>volume\<close>, first in the two calls of \<open>_calculate_trend\<close>.
  \<open>timeframe_days / 7\<close> is a float, and dividing by it raises ZeroDivisionError when
  \<open>timeframe_days\<close> is 0; that happens while the dictionary \<open>progression\<close> is built,
  before anything is saved. On an empty table \<open>idxmax\<close> raises ValueError.
\<close>

definition analyze_logs ::
  "(rat list \<Rightarrow> rat) \<Rightarrow> database \<Rightarrow> int \<Rightarrow> int \<Rightarrow> int \<Rightarrow> int \<Rightarrow> workout_log_row list
     \<Rightarrow> py_error + (analysis \<times> database)"
where
  "analyze_logs polyfit db today user_id exercise_id0 timeframe_days logs =
     (let stats = daily_stats_of logs in
      case column stats ''one_rep_max'' of
        Inl err \<Rightarrow> Inl err
      | Inr one_rep_max \<Rightarrow>
          (case column stats ''volume'' of
             Inl err \<Rightarrow> Inl err
           | Inr volume \<Rightarrow>
               (let strength_trend0 = calculate_trend polyfit one_rep_max;
                    volume_trend0 = calculate_trend polyfit volume
                in case (zip (stats_index stats) one_rep_max, rev one_rep_max, volume, rev volume) of
                     ((first_date, first_1rm) # _, recent_1rm # _, first_volume # _, recent_volume # _) \<Rightarrow>
                       (let best_1rm0 = max_of one_rep_max;
                            best_idx = (case find (\<lambda>(d, v). v = best_1rm0)
                                               (zip (stats_index stats) one_rep_max) of
                                          None \<Rightarrow> first_date | Some (d, v) \<Rightarrow> d)
                        in if timeframe_days = 0 then Inl ZeroDivisionError
                           else
                             (let progression0 =
                                    \<lparr>strength_change_pct =
                                       (if first_1rm > 0 then (recent_1rm / first_1rm - 1) * 100 else 0),
                                     volume_change_pct =
                                       (if first_volume > 0
                                        then (recent_volume / first_volume - 1) * 100 else 0),
                                     strength_trend = strength_trend0,
                                     volume_trend = volume_trend0,
                                     consistency =
                                       of_nat (length (stats_index stats)) / (of_int timeframe_days / 7)\<rparr>;
                                  db1 = save_progression_data db today user_id exercise_id0
                                          recent_1rm recent_volume progression0
                              in Inr (Success
                                   \<lparr>history_length_days =
                                      (case max_date (map wl_date logs) of
                                         None \<Rightarrow> 1
                                       | Some hi \<Rightarrow> hi - fold min (map wl_date logs) hi + 1),
                                    workout_count = length (stats_index stats),
                                    current_1rm = recent_1rm,
                                    best_1rm = best_1rm0,
                                    best_workout_date = best_idx,
                                    average_volume = mean volume,
                                    progression = progression0,
                                    recommendations = generate_recommendations progression0 logs\<rparr>,
                                  db1)))
                   | _ \<Rightarrow> Inl ValueError)))"

text \<open>
  The cutoff date is the difference of two day numbers; the lookback is taken to be one
  that \<open>datetime\<close> can subtract from the current date.
\<close>

definition analyze_workout_history ::
  "(rat list \<Rightarrow> rat) \<Rightarrow> database \<Rightarrow> int \<Rightarrow> int \<Rightarrow> int \<Rightarrow> int
     \<Rightarrow> py_error + (analysis \<times> database)"
where
  "analyze_workout_history polyfit db today user_id exercise_id0 timeframe_days =
     (let cutoff_date = today - timeframe_days;
          logs = history_logs db user_id exercise_id0 cutoff_date
      in if logs = [] then
           Inr (NoData ''No workout history found for this exercise'', db)
         else analyze_logs polyfit db today user_id exercise_id0 timeframe_days logs)"

section \<open>The specification's formulas\<close>


text \<open>
  Section 4.4 of the specification gives the sets of a deload week as
  \<open>max(2, floor(sets \<times> (1 - reduction)))\<close>, with the reduction of the level's entry in
  the table.
\<close>

definition spec_deload_sets :: "string \<Rightarrow> int \<Rightarrow> int" where
  "spec_deload_sets experience_level sets0 =
     max 2 \<lfloor>of_int sets0 * (1 - deload_reduction (progression_patterns experience_level))\<rfloor>"

text \<open>
  Section 8 of the specification asks that the maximum of a rep range after a deload
  week does not exceed the original maximum. For a reps string that the source treats
  as a range and can parse, \<open>deload_range_ok\<close> says so of the rewritten range, read
  back from its string.
\<close>

definition deload_range_ok :: "string \<Rightarrow> bool" where
  "deload_range_ok s =
     (if is_range_string (RepsStr s) then
        (case parse_rep_range s of
           Inl _ \<Rightarrow> True
         | Inr (lo, hi) \<Rightarrow>
             parse_rep_range (format_range lo (lo + 2)) = Inr (lo, lo + 2) \<and> lo + 2 \<le> hi)
      else True)"

section \<open>Example inputs\<close>

text \<open>
  One user with one plan and one exercise, logged on days 8 and 9 with one repetition
  of 100 and of 104. Then the progression that \<open>analyze_workout_history\<close> would hand to
  \<open>_save_progression_data\<close> for these logs with a slope of 4: a strength trend of 4.
\<close>

definition bench_plan :: fitness_plan_row where
  "bench_plan =
     \<lparr>fp_id = 1, fp_user_id = 1, fp_goal = ''Body Building'', fp_created_date = 0,
      fp_is_active = True\<rparr>"

definition bench_history :: database where
  "bench_history =
     \<lparr>fitness_plans = [bench_plan],
      plan_workouts =
        [\<lparr>pw_id = 1, pw_plan_id = 1, pw_week = 1, pw_day = 1, pw_exercise_id = 1,
          pw_title = ''Bench Press''\<rparr>],
      workout_logs =
        [\<lparr>wl_workout_id = 1, wl_user_id = 1, wl_date = 8, wl_sets = 3, wl_reps = 1,
          wl_weight = 100\<rparr>,
         \<lparr>wl_workout_id = 1, wl_user_id = 1, wl_date = 9, wl_sets = 3, wl_reps = 1,
          wl_weight = 104\<rparr>],
      exercise_table = [],
      progression_tracking = []\<rparr>"


text \<open>
  A catalogue that answers every query with one Mobility exercise, preferences that
  ask for a one-week mobility plan, and a day holding that exercise as configured by
  \<open>_create_workout_schedule\<close>.
\<close>

definition mobility_exercise :: exercise where
  "mobility_exercise =
     \<lparr>ex_id = 7, ex_title = ''Hip Circles'', ex_type = ''Mobility'', muscle_group = ''Hips'',
      equipment = ''Bodyweight'', level = ''Beginner'', instructions = None\<rparr>"

definition mobility_selector :: selector where
  "mobility_selector day_focus equip limits experience_level goal0 = [mobility_exercise]"

definition mobility_prefs :: plan_preferences where
  "mobility_prefs =
     \<lparr>pref_name = None, goal = ''Mobility Exclusive'', duration = 1, workouts_per_week = 3,
      equipment_access = [], limitations = [''None'']\<rparr>"

definition mobility_day :: day_workout where
  "mobility_day =
     \<lparr>focus = ''Joint Mobility'',
      exercises = [exercise_config_of ''Beginner'' ''Mobility Exclusive'' mobility_exercise]\<rparr>"

text \<open>
  The base schedule that \<open>_create_workout_schedule\<close> builds for an Advanced user with
  the goal Body Building, one day and the selector of planner.py, and its three-week
  plan from \<open>_apply_progression\<close>. Then a hand-written schedule with one named lift and
  one exercise whose reps are a number, and its three-week Beginner plan.
\<close>

definition advanced_schedule :: "day_workout list" where
  "advanced_schedule =
     create_workout_schedule select_exercises_for_focus [''Full Body''] [] [''None'']
       ''Advanced'' ''Body Building''"

definition advanced_plan :: "week_plan list" where
  "advanced_plan =
     (case apply_progression advanced_schedule 3 ''Advanced'' of Inl _ \<Rightarrow> [] | Inr p \<Rightarrow> p)"

definition lift_schedule :: "day_workout list" where
  "lift_schedule =
     [\<lparr>focus = ''Push'',
       exercises =
         [\<lparr>config_id = 10, title = ''Bench Press'', sets = 3, reps = RepsStr ''8-12'',
           rest = ''2-3 minutes'', tempo = ''2-0-2'', ex_notes = []\<rparr>,
          \<lparr>config_id = 11, title = ''Plank'', sets = 3, reps = RepsInt 20,
           rest = ''30 seconds'', tempo = ''2-0-2'', ex_notes = []\<rparr>]\<rparr>]"

definition lift_plan :: "week_plan list" where
  "lift_plan =
     (case apply_progression lift_schedule 3 ''Beginner'' of Inl _ \<Rightarrow> [] | Inr p \<Rightarrow> p)"

text \<open>
  Fixed choices for the arbitrary ones. A plan that starts on day 0, a Thursday, with
  two workouts scheduled on the Thursday of week 1, both logged on day 0. And the bench
  history with six logs on day 9.
\<close>

definition fixed_choices :: random_source where
  "fixed_choices = \<lparr>pick_alternative = 0, pick_recovery = 0, shuffle_exercises = (\<lambda>xs. xs)\<rparr>"

definition squat_row :: plan_workout_row where
  "squat_row =
     \<lparr>pw_id = 1, pw_plan_id = 1, pw_week = 1, pw_day = 4, pw_exercise_id = 1,
      pw_title = ''Barbell Squat''\<rparr>"

definition curl_row :: plan_workout_row where
  "curl_row =
     \<lparr>pw_id = 2, pw_plan_id = 1, pw_week = 1, pw_day = 4, pw_exercise_id = 3,
      pw_title = ''Bicep Curls''\<rparr>"

definition both_logged :: database where
  "both_logged =
     \<lparr>fitness_plans = [bench_plan],
      plan_workouts = [squat_row, curl_row],
      workout_logs =
        [\<lparr>wl_workout_id = 1, wl_user_id = 1, wl_date = 0, wl_sets = 5, wl_reps = 8,
          wl_weight = 100\<rparr>,
         \<lparr>wl_workout_id = 2, wl_user_id = 1, wl_date = 0, wl_sets = 4, wl_reps = 10,
          wl_weight = 15\<rparr>],
      exercise_table = sample_exercises,
      progression_tracking = []\<rparr>"

definition six_sessions :: database where
  "six_sessions =
     bench_history\<lparr>workout_logs :=
       replicate 6 \<lparr>wl_workout_id = 1, wl_user_id = 1, wl_date = 9, wl_sets = 3, wl_reps = 5,
                    wl_weight = 100\<rparr>\<rparr>"

section \<open>Training split selector\<close>

lemma default_split_length:
  assumes "1 \<le> k" and "k \<le> 7"
  shows "\<exists>s. map_of default_splits k = Some s \<and> length s = nat k"
proof -
  from assms consider "k = 1" | "k = 2" | "k = 3" | "k = 4" | "k = 5" | "k = 6" | "k = 7"
    by linarith
  then show ?thesis
    by cases (simp_all add: default_splits_def)
qed

lemma training_split_entry_length:
  "map_of training_splits (g, k) = Some s \<Longrightarrow> length s = nat k"
  by (auto simp: training_splits_def split: if_splits)

lemma split_above_seven:
  "7 < n \<Longrightarrow> determine_training_split n g = determine_training_split 7 g"
  by (simp add: determine_training_split_def)

text \<open>
  Claim C9. For every goal and every number \<open>n\<close> of workouts per week from 1 on, the
  selector returns as many focus labels as \<open>min n 7\<close>: exactly \<open>n\<close> labels for
  \<open>1 \<le> n \<le> 7\<close>, whichever of the three tables answers, and for \<open>n > 7\<close> the answer
  for 7.
\<close>

theorem training_split_length:
  assumes "1 \<le> n"
  shows "length (determine_training_split n g) = nat (min n 7) \<and>
         determine_training_split n g = determine_training_split (min n 7) g"
proof -
  let ?k = "min n 7"
  have k: "1 \<le> ?k" "?k \<le> 7" using assms by auto
  have eq: "determine_training_split n g = determine_training_split ?k g"
    by (cases "7 < n") (simp_all add: split_above_seven min_def)
  obtain d where d: "map_of default_splits ?k = Some d" "length d = nat ?k"
    using default_split_length[OF k] by blast
  have "length (determine_training_split ?k g) = nat ?k"
  proof (cases "map_of training_splits (g, ?k)")
    case None
    then show ?thesis using d k by (simp add: determine_training_split_def)
  next
    case (Some s)
    then show ?thesis using training_split_entry_length[OF Some] k
      by (simp add: determine_training_split_def)
  qed
  with eq show ?thesis by simp
qed

theorem training_split_length_witness:
  "(1::int) \<le> 9 \<and> length (determine_training_split 9 ''Body Building'') = 7 \<and>
   determine_training_split 9 ''Body Building'' = determine_training_split 7 ''Body Building''"
proof -
  have h: "(1::int) \<le> 9" by simp
  note t = training_split_length [OF h, of "''Body Building''"]
  have a: "length (determine_training_split 9 ''Body Building'') = 7"
    using t [THEN conjunct1] by simp
  have b: "determine_training_split 9 ''Body Building'' = determine_training_split 7 ''Body Building''"
    using t [THEN conjunct2] by simp
  show ?thesis using h a b by blast
qed

section \<open>Linear trend\<close>

lemma length_index_values [simp]: "length (index_values n) = n"
  by (simp add: index_values_def)

lemma index_values_Suc: "index_values (Suc n) = index_values n @ [of_nat n]"
  by (simp add: index_values_def)

lemma index_values_less: "i \<in> set (index_values n) \<Longrightarrow> i < of_nat n"
  by (auto simp: index_values_def)

lemma sum_list_map2_const:
  "length xs = m \<Longrightarrow> sum_list (map2 (*) xs (replicate m (c::rat))) = c * sum_list xs"
proof (induction xs arbitrary: m)
  case Nil
  then show ?case by simp
next
  case (Cons x xs)
  then obtain k where "m = Suc k" by (cases m) auto
  with Cons show ?case by (simp add: algebra_simps)
qed

lemma slope_numerator_constant: "slope_numerator (replicate n c) = 0"
  by (simp add: slope_numerator_def sum_list_map2_const sum_list_replicate)

lemma weighted_gap_sum:
  "length xs = length vs \<Longrightarrow>
   sum_list (map2 (\<lambda>i v. (a - i) * (y - v)) xs vs) =
     a * y * of_nat (length xs) - a * sum_list vs - y * sum_list xs
       + sum_list (map2 (*) xs (vs::rat list))"
  by (induction xs vs rule: list_induct2) (simp_all add: algebra_simps)

lemma slope_numerator_snoc:
  "slope_numerator (ys @ [y]) =
     slope_numerator ys +
     sum_list (map2 (\<lambda>i v. (of_nat (length ys) - i) * (y - v)) (index_values (length ys)) ys)"
proof -
  let ?n = "length ys"
  have gap: "sum_list (map2 (\<lambda>i v. (of_nat ?n - i) * (y - v)) (index_values ?n) ys) =
      of_nat ?n * y * of_nat ?n - of_nat ?n * sum_list ys - y * sum_list (index_values ?n)
        + sum_list (map2 (*) (index_values ?n) ys)"
    using weighted_gap_sum [of "index_values ?n" ys "of_nat ?n" y] by simp
  have "slope_numerator (ys @ [y]) =
      (of_nat ?n + 1) * (sum_list (map2 (*) (index_values ?n) ys) + of_nat ?n * y)
        - (sum_list (index_values ?n) + of_nat ?n) * (sum_list ys + y)"
    by (simp add: slope_numerator_def index_values_Suc)
  also have "\<dots> = slope_numerator ys +
      (of_nat ?n * y * of_nat ?n - of_nat ?n * sum_list ys - y * sum_list (index_values ?n)
        + sum_list (map2 (*) (index_values ?n) ys))"
    by (simp add: slope_numerator_def algebra_simps)
  finally show ?thesis using gap by simp
qed

lemma sum_list_map2_pos:
  "length xs = length vs \<Longrightarrow> (\<And>i v. (i, v) \<in> set (zip xs vs) \<Longrightarrow> 0 < f i v) \<Longrightarrow>
   xs \<noteq> [] \<Longrightarrow> (0::rat) < sum_list (map2 f xs vs)"
proof (induction xs vs rule: list_induct2)
  case Nil
  then show ?case by simp
next
  case (Cons x xs v vs)
  have head: "0 < f x v" using Cons.prems(1) by simp
  show ?case
  proof (cases "xs = []")
    case True
    with Cons.hyps head show ?thesis by simp
  next
    case False
    have "0 < sum_list (map2 f xs vs)"
      using Cons.IH Cons.prems(1) False by simp
    with head show ?thesis by simp
  qed
qed

lemma gap_sum_pos:
  assumes "\<forall>v\<in>set ys. v < y" and "ys \<noteq> []"
  shows "0 < sum_list (map2 (\<lambda>i v. (of_nat (length ys) - i) * (y - v)) (index_values (length ys)) ys)"
proof (rule sum_list_map2_pos)
  show "length (index_values (length ys)) = length ys" by simp
  show "index_values (length ys) \<noteq> []" using assms(2) by (simp add: index_values_def)
  fix i v
  assume "(i, v) \<in> set (zip (index_values (length ys)) ys)"
  then have "i \<in> set (index_values (length ys))" and "v \<in> set ys"
    by (auto dest: set_zip_leftD set_zip_rightD)
  then have "0 < of_nat (length ys) - i" and "0 < y - v"
    using assms(1) index_values_less by auto
  then show "0 < (of_nat (length ys) - i) * (y - v)" by simp
qed

lemma slope_numerator_increasing:
  "sorted_wrt (<) ys \<Longrightarrow>
   0 \<le> slope_numerator ys \<and> (2 \<le> length ys \<longrightarrow> 0 < slope_numerator ys)"
proof (induction ys rule: rev_induct)
  case Nil
  then show ?case by (simp add: slope_numerator_def index_values_def)
next
  case (snoc y ys)
  then have sorted: "sorted_wrt (<) ys" and above: "\<forall>v\<in>set ys. v < y"
    by (auto simp: sorted_wrt_append)
  have ih: "0 \<le> slope_numerator ys" using snoc.IH sorted by simp
  show ?case
  proof (cases "ys = []")
    case True
    then show ?thesis by (simp add: slope_numerator_def index_values_def)
  next
    case False
    from gap_sum_pos[OF above False] ih show ?thesis
      by (simp add: slope_numerator_snoc)
  qed
qed

lemma sorted_index_values: "sorted_wrt (<) (index_values n)"
  by (simp add: index_values_def sorted_wrt_map sorted_wrt_upt[unfolded] )

lemma map2_square: "map2 (*) xs xs = map (\<lambda>x. x * x) (xs::rat list)"
  by (induction xs) simp_all

lemma slope_denominator_numerator: "slope_denominator n = slope_numerator (index_values n)"
  by (simp add: slope_denominator_def slope_numerator_def map2_square)

lemma slope_denominator_pos: "2 \<le> n \<Longrightarrow> 0 < slope_denominator n"
  using slope_numerator_increasing[OF sorted_index_values, of n]
  by (simp add: slope_denominator_numerator)

lemma least_squares_constant: "least_squares_slope (replicate n c) = 0"
  by (simp add: least_squares_slope_def slope_numerator_constant)

lemma least_squares_increasing:
  assumes "sorted_wrt (<) ys" and "2 \<le> length ys"
  shows "0 < least_squares_slope ys"
proof -
  have "0 < slope_numerator ys" using slope_numerator_increasing[OF assms(1)] assms(2) by simp
  moreover have "0 < slope_denominator (length ys)" using slope_denominator_pos[OF assms(2)] .
  ultimately show ?thesis by (simp add: least_squares_slope_def)
qed



lemma trend_of_slope:
  assumes "2 \<le> length series" and "0 < hd series"
  shows "calculate_trend polyfit series = polyfit series / hd series * 100"
  using assms by (cases series) (auto simp: calculate_trend_def)




text \<open>
  With the exact least-squares slope in the place of numpy's fit, the trend of a
  constant series is 0, and the trend of a strictly increasing series of at least two
  points with a positive first value is positive.
\<close>

lemma exact_slope_trend:
  "calculate_trend least_squares_slope (replicate n c) = 0 \<and>
   (sorted_wrt (<) ys \<longrightarrow> 2 \<le> length ys \<longrightarrow> 0 < hd ys \<longrightarrow>
      0 < calculate_trend least_squares_slope ys)"
proof (intro conjI impI)
  show "calculate_trend least_squares_slope (replicate n c) = 0"
    by (simp add: calculate_trend_def least_squares_constant split: list.splits)
next
  assume s: "sorted_wrt (<) ys" and l: "2 \<le> length ys" and f: "0 < hd ys"
  from least_squares_increasing[OF s l] f show "0 < calculate_trend least_squares_slope ys"
    by (simp add: trend_of_slope[OF l f])
qed

section \<open>Progress analysis\<close>

text \<open>
  Claim C10. When the query for the logs of the lookback window returns no row,
  \<open>analyze_workout_history\<close> returns the result with status \<open>No data\<close>, raises
  nothing, and leaves the database as it was.
\<close>

theorem no_data_result:
  assumes "history_logs db user_id exercise_id0 (today - timeframe_days) = []"
  shows "analyze_workout_history polyfit db today user_id exercise_id0 timeframe_days =
           Inr (NoData ''No workout history found for this exercise'', db) \<and>
         analysis_status (NoData ''No workout history found for this exercise'') = ''No data''"
  using assms by (simp add: analyze_workout_history_def analysis_status_def)

theorem no_data_result_witness:
  "history_logs bench_history 1 1 (100 - 90) = [] \<and>
   analyze_workout_history least_squares_slope bench_history 100 1 1 90 =
     Inr (NoData ''No workout history found for this exercise'', bench_history) \<and>
   analysis_status (NoData ''No workout history found for this exercise'') = ''No data''"
proof -
  have h: "history_logs bench_history 1 1 (100 - 90) = []" by code_simp
  show ?thesis using h no_data_result [OF h, of least_squares_slope] by blast
qed

text \<open>
  With logs in the window the analysis does not get as far as the trend: the renamed
  table of daily statistics has no column \<open>one_rep_max\<close>, and reading it raises
  KeyError. Nothing is saved.
\<close>

lemma renamed_columns:
  "map fst (stats_columns (daily_stats_of logs)) =
     [''one_rep_max_max'', ''volume_sum'', ''sets_sum'', ''reps_mean'', ''reps_sum'']"
  by (simp add: daily_stats_of_def Let_def aggregations_def str_strip_def is_space_def)

lemma no_one_rep_max_column: "column (daily_stats_of logs) ''one_rep_max'' = Inl KeyError"
proof -
  have "''one_rep_max'' \<notin> set (map fst (stats_columns (daily_stats_of logs)))"
    by (simp add: renamed_columns)
  then have "map_of (stats_columns (daily_stats_of logs)) ''one_rep_max'' = None"
    by (simp add: map_of_eq_None_iff)
  then show ?thesis by (simp add: column_def)
qed

lemma analysis_raises_key_error:
  assumes "history_logs db user_id exercise_id0 (today - timeframe_days) \<noteq> []"
  shows "analyze_workout_history polyfit db today user_id exercise_id0 timeframe_days = Inl KeyError"
  using assms
  by (simp add: analyze_workout_history_def analyze_logs_def Let_def no_one_rep_max_column)



section \<open>Progression engine\<close>

lemma map_result_Inr:
  "map_result f xs = Inr ys \<longleftrightarrow> list_all2 (\<lambda>x y. f x = Inr y) xs ys"
proof (induction xs arbitrary: ys)
  case Nil
  then show ?case by auto
next
  case (Cons x xs)
  show ?case
    by (auto simp: list_all2_Cons1 Cons.IH[symmetric] split: sum.splits)
qed

lemma map_result_first_error:
  assumes "x \<in> set xs" and "f x = Inl a" and "\<And>y e. f y = Inl e \<Longrightarrow> e = a"
  shows "map_result f xs = Inl a"
  using assms(1)
proof (induction xs)
  case Nil
  then show ?case by simp
next
  case (Cons y ys)
  show ?case
  proof (cases "f y")
    case (Inl e)
    then show ?thesis using assms(3) by simp
  next
    case (Inr v)
    with Cons assms(2) have "x \<in> set ys" by auto
    with Cons.IH have "map_result f ys = Inl a" by simp
    with Inr show ?thesis by simp
  qed
qed

lemma parse_rep_range_error: "parse_rep_range s = Inl e \<Longrightarrow> e = ValueError"
  by (auto simp: parse_rep_range_def split: list.splits option.splits)

lemma progress_exercise_error:
  "progress_exercise w d l e = Inl err \<Longrightarrow> err = ValueError"
  by (auto simp: progress_exercise_def odd_week_exercise_def deload_exercise_def Let_def
      split: if_splits sum.splits dest: parse_rep_range_error)

lemma map_result_Inl:
  "map_result f xs = Inl e \<Longrightarrow> \<exists>x\<in>set xs. f x = Inl e"
  by (induction xs) (auto split: sum.splits)

lemma progress_day_error: "progress_day w d l day = Inl err \<Longrightarrow> err = ValueError"
  by (auto simp: progress_day_def split: sum.splits
      dest!: map_result_Inl dest: progress_exercise_error)

lemma progress_week_error: "progress_week sched l w = Inl err \<Longrightarrow> err = ValueError"
  by (auto simp: progress_week_def Let_def split: sum.splits
      dest!: map_result_Inl dest: progress_day_error)

lemma mobility_reps_parse: "parse_rep_range ''30-60 seconds'' = Inl ValueError"
  by code_simp

lemma mobility_reps_range: "is_range_string (RepsStr ''30-60 seconds'')"
  by (simp add: is_range_string_def)

lemma odd_week_mobility:
  "reps e = RepsStr ''30-60 seconds'' \<Longrightarrow> odd_week_exercise w e = Inl ValueError"
  by (simp add: odd_week_exercise_def mobility_reps_range reps_string_def mobility_reps_parse)

lemma deload_mobility:
  "reps e = RepsStr ''30-60 seconds'' \<Longrightarrow> deload_exercise e = Inl ValueError"
  by (simp add: deload_exercise_def mobility_reps_range reps_string_def mobility_reps_parse)

lemma week_one_regular: "\<not> week_is_deload l 1"
  by (simp add: week_is_deload_def progression_patterns_def)

lemma progress_week_one_mobility:
  assumes "day \<in> set sched" and "e \<in> set (exercises day)"
    and "reps e = RepsStr ''30-60 seconds''"
  shows "progress_week sched l 1 = Inl ValueError"
proof -
  have ex: "progress_exercise 1 False l e = Inl ValueError"
    using assms(3) by (simp add: progress_exercise_def odd_week_mobility)
  have "map_result (progress_exercise 1 False l) (exercises day) = Inl ValueError"
    using assms(2) ex progress_exercise_error by (rule map_result_first_error)
  then have "progress_day 1 False l day = Inl ValueError"
    by (simp add: progress_day_def)
  then have "map_result (progress_day 1 False l) sched = Inl ValueError"
    using assms(1) progress_day_error by (intro map_result_first_error) auto
  then show ?thesis
    by (simp add: progress_week_def week_one_regular)
qed

lemma apply_progression_mobility:
  assumes "1 \<le> d" and "day \<in> set sched" and "e \<in> set (exercises day)"
    and "reps e = RepsStr ''30-60 seconds''"
  shows "apply_progression sched d l = Inl ValueError"
proof -
  have "[1..d] = 1 # [2..d]" using assms(1) by (simp add: upto_rec1)
  then show ?thesis
    using progress_week_one_mobility[OF assms(2-4)]
    by (simp add: apply_progression_def)
qed

lemma mobility_config_reps:
  "ex_type x = ''Mobility'' \<Longrightarrow> reps (exercise_config_of l g x) = RepsStr ''30-60 seconds''"
  by (simp add: exercise_config_of_def exercise_sets_reps_def Let_def)

text \<open>
  Claim C4. With a duration of at least one week, a base schedule that holds an
  exercise whose reps are \<open>30-60 seconds\<close> makes \<open>_apply_progression\<close> raise
  ValueError: week 1 is an odd regular week for every level, and the parse of the
  part \<open>60 seconds\<close> fails there, as it does in a deload week. So \<open>generate_plan\<close>
  raises ValueError whenever the selector returns a Mobility exercise for a day of
  the split.
\<close>

theorem mobility_exercise_aborts:
  assumes "1 \<le> d"
  shows "(day \<in> set sched \<longrightarrow> e \<in> set (exercises day) \<longrightarrow> reps e = RepsStr ''30-60 seconds'' \<longrightarrow>
            apply_progression sched d l = Inl ValueError \<and>
            odd_week_exercise w e = Inl ValueError \<and> deload_exercise e = Inl ValueError) \<and>
         (duration prefs = d \<longrightarrow>
          f \<in> set (determine_training_split (workouts_per_week prefs) (goal prefs)) \<longrightarrow>
          x \<in> set (select f (equipment_access prefs) (limitations prefs)
                      (case user_level of None \<Rightarrow> ''Beginner'' | Some v \<Rightarrow> v) (goal prefs)) \<longrightarrow>
          ex_type x = ''Mobility'' \<longrightarrow>
            generate_plan select user_level prefs = Inl ValueError)"
proof (intro conjI impI)
  assume "day \<in> set sched" "e \<in> set (exercises day)" "reps e = RepsStr ''30-60 seconds''"
  then show "apply_progression sched d l = Inl ValueError"
    using apply_progression_mobility[OF assms] by blast
next
  assume "reps e = RepsStr ''30-60 seconds''"
  then show "odd_week_exercise w e = Inl ValueError" by (rule odd_week_mobility)
next
  assume "reps e = RepsStr ''30-60 seconds''"
  then show "deload_exercise e = Inl ValueError" by (rule deload_mobility)
next
  let ?l = "case user_level of None \<Rightarrow> ''Beginner'' | Some v \<Rightarrow> v"
  let ?split = "determine_training_split (workouts_per_week prefs) (goal prefs)"
  let ?sched = "create_workout_schedule select ?split (equipment_access prefs)
                  (limitations prefs) ?l (goal prefs)"
  assume dur: "duration prefs = d"
    and f: "f \<in> set ?split"
    and x: "x \<in> set (select f (equipment_access prefs) (limitations prefs) ?l (goal prefs))"
    and m: "ex_type x = ''Mobility''"
  let ?day = "\<lparr>focus = f, exercises = map (exercise_config_of ?l (goal prefs))
                 (select f (equipment_access prefs) (limitations prefs) ?l (goal prefs))\<rparr>"
  have day: "?day \<in> set ?sched"
    using f by (auto simp: create_workout_schedule_def)
  have e: "exercise_config_of ?l (goal prefs) x \<in> set (exercises ?day)"
    using x by simp
  have "apply_progression ?sched d ?l = Inl ValueError"
    using apply_progression_mobility[OF assms day e mobility_config_reps[OF m]] .
  then show "generate_plan select user_level prefs = Inl ValueError"
    using dur by (simp add: generate_plan_def Let_def)
qed


text \<open>
  When \<open>_apply_progression\<close> does return, \<open>generate_plan\<close> raises NameError in
  \<open>_structure_complete_plan\<close>: it returns no plan for any input.
\<close>

lemma generate_plan_returns_nothing: "generate_plan select user_level prefs \<noteq> Inr cp"
  by (simp add: generate_plan_def structure_complete_plan_def Let_def split: sum.splits)

theorem mobility_exercise_aborts_witness:
  "(1::int) \<le> 1 \<and>
   mobility_day \<in> set [mobility_day] \<and>
   exercise_config_of ''Beginner'' ''Mobility Exclusive'' mobility_exercise
     \<in> set (exercises mobility_day) \<and>
   reps (exercise_config_of ''Beginner'' ''Mobility Exclusive'' mobility_exercise)
     = RepsStr ''30-60 seconds'' \<and>
   apply_progression [mobility_day] 1 ''Beginner'' = Inl ValueError \<and>
   odd_week_exercise 1 (exercise_config_of ''Beginner'' ''Mobility Exclusive'' mobility_exercise)
     = Inl ValueError \<and>
   deload_exercise (exercise_config_of ''Beginner'' ''Mobility Exclusive'' mobility_exercise)
     = Inl ValueError \<and>
   duration mobility_prefs = 1 \<and>
   ''Joint Mobility'' \<in> set (determine_training_split (workouts_per_week mobility_prefs)
                                (goal mobility_prefs)) \<and>
   mobility_exercise \<in> set (mobility_selector ''Joint Mobility'' (equipment_access mobility_prefs)
                              (limitations mobility_prefs)
                              (case None of None \<Rightarrow> ''Beginner'' | Some v \<Rightarrow> v)
                              (goal mobility_prefs)) \<and>
   ex_type mobility_exercise = ''Mobility'' \<and>
   generate_plan mobility_selector None mobility_prefs = Inl ValueError"
proof -
  let ?e = "exercise_config_of ''Beginner'' ''Mobility Exclusive'' mobility_exercise"
  have h: "(1::int) \<le> 1" by simp
  have a: "mobility_day \<in> set [mobility_day]" by simp
  have b: "?e \<in> set (exercises mobility_day)" by (simp add: mobility_day_def)
  have c: "reps ?e = RepsStr ''30-60 seconds''" by code_simp
  have d: "duration mobility_prefs = 1" by (simp add: mobility_prefs_def)
  have f: "''Joint Mobility'' \<in> set (determine_training_split (workouts_per_week mobility_prefs)
                                (goal mobility_prefs))" by code_simp
  have x: "mobility_exercise \<in> set (mobility_selector ''Joint Mobility''
             (equipment_access mobility_prefs) (limitations mobility_prefs)
             (case None of None \<Rightarrow> ''Beginner'' | Some v \<Rightarrow> v) (goal mobility_prefs))"
    by (simp add: mobility_selector_def)
  have m: "ex_type mobility_exercise = ''Mobility''" by (simp add: mobility_exercise_def)
  note t = mobility_exercise_aborts [OF h, of mobility_day "[mobility_day]" ?e "''Beginner''" 1
             mobility_prefs "''Joint Mobility''" mobility_exercise mobility_selector None]
  show ?thesis using h a b c d f x m t by blast
qed

lemma apply_progression_week:
  assumes "apply_progression sched d l = Inr plan" and "wk \<in> set plan"
  shows "\<exists>w. progress_week sched l w = Inr wk"
proof -
  from assms(1) have "list_all2 (\<lambda>w y. progress_week sched l w = Inr y) [1..d] plan"
    by (simp add: apply_progression_def map_result_Inr)
  moreover from assms(2) obtain k where "k < length plan" "plan ! k = wk"
    by (auto simp: in_set_conv_nth)
  ultimately have "progress_week sched l ([1..d] ! k) = Inr wk"
    by (auto simp: list_all2_conv_all_nth)
  then show ?thesis by blast
qed

lemma progress_week_exercise:
  assumes "progress_week sched l w = Inr wk"
    and "i < length (workouts wk)" and "j < length (exercises (workouts wk ! i))"
  shows "week wk = w \<and> is_deload wk = week_is_deload l w \<and>
         i < length sched \<and> j < length (exercises (sched ! i)) \<and>
         progress_exercise w (week_is_deload l w) l (exercises (sched ! i) ! j)
           = Inr (exercises (workouts wk ! i) ! j)"
proof -
  from assms(1) obtain ds where ds: "map_result (progress_day w (week_is_deload l w) l) sched = Inr ds"
    and "wk = \<lparr>week = w, is_deload = week_is_deload l w, workouts = ds\<rparr>"
    by (auto simp: progress_week_def Let_def split: sum.splits)
  then have wk: "week wk = w" "is_deload wk = week_is_deload l w" and "workouts wk = ds"
    by simp_all
  with ds have days: "list_all2 (\<lambda>x y. progress_day w (week_is_deload l w) l x = Inr y)
                        sched (workouts wk)"
    by (simp add: map_result_Inr)
  from days assms(2) have i: "i < length sched"
    and day: "progress_day w (week_is_deload l w) l (sched ! i) = Inr (workouts wk ! i)"
    by (auto simp: list_all2_conv_all_nth)
  from day obtain es where es: "map_result (progress_exercise w (week_is_deload l w) l)
                                 (exercises (sched ! i)) = Inr es"
    and "workouts wk ! i = \<lparr>focus = focus (sched ! i), exercises = es\<rparr>"
    by (auto simp: progress_day_def split: sum.splits)
  then have "exercises (workouts wk ! i) = es" by simp
  with es have "list_all2 (\<lambda>x y. progress_exercise w (week_is_deload l w) l x = Inr y)
                   (exercises (sched ! i)) (exercises (workouts wk ! i))"
    by (simp add: map_result_Inr)
  with assms(3) have "j < length (exercises (sched ! i))"
    and "progress_exercise w (week_is_deload l w) l (exercises (sched ! i) ! j)
           = Inr (exercises (workouts wk ! i) ! j)"
    by (auto simp: list_all2_conv_all_nth)
  with wk i show ?thesis by simp
qed

lemma plan_exercise:
  assumes "apply_progression sched d l = Inr plan" and "wk \<in> set plan"
    and "i < length (workouts wk)" and "j < length (exercises (workouts wk ! i))"
  shows "is_deload wk = week_is_deload l (week wk) \<and>
         i < length sched \<and> j < length (exercises (sched ! i)) \<and>
         progress_exercise (week wk) (is_deload wk) l (exercises (sched ! i) ! j)
           = Inr (exercises (workouts wk ! i) ! j)"
proof -
  from apply_progression_week[OF assms(1,2)] obtain w where "progress_week sched l w = Inr wk"
    by blast
  from progress_week_exercise[OF this assms(3,4)] show ?thesis by simp
qed

lemma odd_week_exercise_result:
  assumes "odd_week_exercise w b = Inr e"
  shows "sets e = (if 2 < w \<and> str_lower (title b) \<in> set big_lifts then min (sets b + 1) 6 else sets b) \<and>
         (\<not> is_range_string (reps b) \<longrightarrow> reps e = reps b) \<and>
         (is_range_string (reps b) \<longrightarrow>
            (\<exists>lo hi. parse_rep_range (reps_string (reps b)) = Inr (lo, hi) \<and>
                     reps e = RepsStr (format_range (min (lo + 1) hi) (min (hi + 2) 20))))"
  using assms
  by (auto simp: odd_week_exercise_def Let_def split: if_splits sum.splits)

text \<open>
  Claim C3, as the code has it. In a regular week with an odd number, an exercise of
  the plan differs from the exercise at the same place of the base schedule as
  follows. Its sets are one more, capped at 6, when the week is past week 2 and the
  lower-cased title is one of the four lift names, and unchanged otherwise. Its reps
  are rewritten whenever they are a string with a dash, for every exercise and also in
  week 1: the minimum becomes the smaller of minimum + 1 and the maximum, the maximum
  becomes the smaller of maximum + 2 and 20. Reps without a dash are unchanged.
\<close>

theorem odd_week_progression:
  assumes "apply_progression sched d l = Inr plan" and "wk \<in> set plan"
    and "\<not> is_deload wk" and "week wk mod 2 = 1"
    and "i < length (workouts wk)" and "j < length (exercises (workouts wk ! i))"
  shows "sets (exercises (workouts wk ! i) ! j) =
           (if 2 < week wk \<and> str_lower (title (exercises (sched ! i) ! j)) \<in> set big_lifts
            then min (sets (exercises (sched ! i) ! j) + 1) 6
            else sets (exercises (sched ! i) ! j)) \<and>
         (\<not> is_range_string (reps (exercises (sched ! i) ! j)) \<longrightarrow>
            reps (exercises (workouts wk ! i) ! j) = reps (exercises (sched ! i) ! j)) \<and>
         (is_range_string (reps (exercises (sched ! i) ! j)) \<longrightarrow>
            (\<exists>lo hi. parse_rep_range (reps_string (reps (exercises (sched ! i) ! j))) = Inr (lo, hi) \<and>
                     reps (exercises (workouts wk ! i) ! j) =
                       RepsStr (format_range (min (lo + 1) hi) (min (hi + 2) 20))))"
proof -
  from plan_exercise[OF assms(1,2,5,6)] assms(3,4)
  have "odd_week_exercise (week wk) (exercises (sched ! i) ! j) = Inr (exercises (workouts wk ! i) ! j)"
    by (simp add: progress_exercise_def)
  from odd_week_exercise_result[OF this] show ?thesis .
qed

lemma schedule_exercise:
  assumes "i < length (create_workout_schedule select foci equip lims l g)"
    and "j < length (exercises (create_workout_schedule select foci equip lims l g ! i))"
  shows "\<exists>x. exercises (create_workout_schedule select foci equip lims l g ! i) ! j
            = exercise_config_of l g x"
  using assms by (auto simp: create_workout_schedule_def)

lemma show_int_cardio:
  "show_int 15 = ''15''" "show_int 20 = ''20''" "show_int 25 = ''25''" "show_int 30 = ''30''"
  by code_simp+

lemma generated_reps:
  "snd (exercise_sets_reps t l g) \<in>
     {''8-12'', ''8-10'', ''6-12'', ''10-15'', ''12-15'', ''15 minutes'', ''20 minutes'',
      ''25 minutes'', ''30 minutes'', ''30-60 seconds''}"
  by (simp add: exercise_sets_reps_def intensity_mapping_def Let_def show_int_cardio)

lemma generated_reps_ok: "deload_range_ok (snd (exercise_sets_reps t l g))"
proof -
  have "deload_range_ok ''8-12''" "deload_range_ok ''8-10''" "deload_range_ok ''6-12''"
    "deload_range_ok ''10-15''" "deload_range_ok ''12-15''" "deload_range_ok ''15 minutes''"
    "deload_range_ok ''20 minutes''" "deload_range_ok ''25 minutes''"
    "deload_range_ok ''30 minutes''" "deload_range_ok ''30-60 seconds''"
    by code_simp+
  with generated_reps[of t l g] show ?thesis by auto
qed

lemma deload_exercise_result:
  assumes "deload_exercise b = Inr e"
  shows "2 \<le> sets e \<and>
         (is_range_string (reps b) \<longrightarrow>
            (\<exists>lo hi. parse_rep_range (reps_string (reps b)) = Inr (lo, hi) \<and>
                     reps e = RepsStr (format_range lo (lo + 2))))"
  using assms
  by (auto simp: deload_exercise_def Let_def split: if_splits sum.splits)


text \<open>
  Claim C5. In a plan built from a schedule of \<open>_create_workout_schedule\<close>, whatever
  the catalogue returns, every exercise of a deload week has at least 2 sets, and
  where the base exercise carries a rep range from \<open>lo\<close> to \<open>hi\<close> the exercise
  carries the range from \<open>lo\<close> to \<open>lo + 2\<close>, which reads back as such, with
  \<open>lo + 2 \<le> hi\<close>.
\<close>

theorem deload_week_bounds:
  assumes "apply_progression (create_workout_schedule select foci equip lims l g) d l' = Inr plan"
    and "wk \<in> set plan" and "is_deload wk"
    and "i < length (workouts wk)" and "j < length (exercises (workouts wk ! i))"
  shows "2 \<le> sets (exercises (workouts wk ! i) ! j) \<and>
         (is_range_string (reps (exercises (create_workout_schedule select foci equip lims l g ! i) ! j)) \<longrightarrow>
            (\<exists>lo hi.
               parse_rep_range (reps_string
                 (reps (exercises (create_workout_schedule select foci equip lims l g ! i) ! j)))
                 = Inr (lo, hi) \<and>
               reps (exercises (workouts wk ! i) ! j) = RepsStr (format_range lo (lo + 2)) \<and>
               parse_rep_range (format_range lo (lo + 2)) = Inr (lo, lo + 2) \<and>
               lo + 2 \<le> hi))"
proof -
  let ?sched = "create_workout_schedule select foci equip lims l g"
  let ?b = "exercises (?sched ! i) ! j"
  let ?e = "exercises (workouts wk ! i) ! j"
  from plan_exercise[OF assms(1,2,4,5)] assms(3)
  have i: "i < length ?sched" and j: "j < length (exercises (?sched ! i))"
    and step: "deload_exercise ?b = Inr ?e"
    by (simp_all add: progress_exercise_def)
  from schedule_exercise[OF i j] obtain x where "?b = exercise_config_of l g x" by blast
  then have rb: "reps ?b = RepsStr (snd (exercise_sets_reps (ex_type x) l g))"
    by (simp add: exercise_config_of_def Let_def)
  have ok: "deload_range_ok (snd (exercise_sets_reps (ex_type x) l g))"
    by (rule generated_reps_ok)
  from deload_exercise_result[OF step] have s: "2 \<le> sets ?e"
    and r: "is_range_string (reps ?b) \<longrightarrow>
            (\<exists>lo hi. parse_rep_range (reps_string (reps ?b)) = Inr (lo, hi) \<and>
                     reps ?e = RepsStr (format_range lo (lo + 2)))"
    by blast+
  show ?thesis
  proof (intro conjI impI)
    show "2 \<le> sets ?e" by (rule s)
  next
    assume range: "is_range_string (reps ?b)"
    with r obtain lo hi where p: "parse_rep_range (reps_string (reps ?b)) = Inr (lo, hi)"
      and e: "reps ?e = RepsStr (format_range lo (lo + 2))"
      by blast
    from ok range rb p have "parse_rep_range (format_range lo (lo + 2)) = Inr (lo, lo + 2) \<and> lo + 2 \<le> hi"
      by (simp add: deload_range_ok_def reps_string_def)
    with p e show "\<exists>lo hi. parse_rep_range (reps_string (reps ?b)) = Inr (lo, hi) \<and>
               reps ?e = RepsStr (format_range lo (lo + 2)) \<and>
               parse_rep_range (format_range lo (lo + 2)) = Inr (lo, lo + 2) \<and>
               lo + 2 \<le> hi"
      by blast
  qed
qed

theorem deload_week_bounds_witness:
  "apply_progression
     (create_workout_schedule select_exercises_for_focus [''Full Body''] [] [''None'']
        ''Advanced'' ''Body Building'') 3 ''Advanced'' = Inr advanced_plan \<and>
   advanced_plan ! 2 \<in> set advanced_plan \<and> is_deload (advanced_plan ! 2) \<and>
   0 < length (workouts (advanced_plan ! 2)) \<and>
   2 < length (exercises (workouts (advanced_plan ! 2) ! 0)) \<and>
   2 \<le> sets (exercises (workouts (advanced_plan ! 2) ! 0) ! 2) \<and>
   is_range_string (reps (exercises (advanced_schedule ! 0) ! 2)) \<and>
   (\<exists>lo hi.
      parse_rep_range (reps_string (reps (exercises (advanced_schedule ! 0) ! 2))) = Inr (lo, hi) \<and>
      reps (exercises (workouts (advanced_plan ! 2) ! 0) ! 2) = RepsStr (format_range lo (lo + 2)) \<and>
      parse_rep_range (format_range lo (lo + 2)) = Inr (lo, lo + 2) \<and>
      lo + 2 \<le> hi)"
proof -
  have h1: "apply_progression
     (create_workout_schedule select_exercises_for_focus [''Full Body''] [] [''None'']
        ''Advanced'' ''Body Building'') 3 ''Advanced'' = Inr advanced_plan"
    by code_simp
  have h2: "advanced_plan ! 2 \<in> set advanced_plan" by code_simp
  have h3: "is_deload (advanced_plan ! 2)" by code_simp
  have h4: "0 < length (workouts (advanced_plan ! 2))" by code_simp
  have h5: "2 < length (exercises (workouts (advanced_plan ! 2) ! 0))" by code_simp
  have r: "is_range_string (reps (exercises (advanced_schedule ! 0) ! 2))" by code_simp
  note t = deload_week_bounds [OF h1 h2 h3 h4 h5, folded advanced_schedule_def]
  show ?thesis using h1 h2 h3 h4 h5 r t by blast
qed

theorem odd_week_progression_witness:
  "apply_progression lift_schedule 3 ''Beginner'' = Inr lift_plan \<and>
   lift_plan ! 2 \<in> set lift_plan \<and> \<not> is_deload (lift_plan ! 2) \<and>
   week (lift_plan ! 2) mod 2 = 1 \<and>
   0 < length (workouts (lift_plan ! 2)) \<and>
   0 < length (exercises (workouts (lift_plan ! 2) ! 0)) \<and>
   1 < length (exercises (workouts (lift_plan ! 2) ! 0)) \<and>
   sets (exercises (workouts (lift_plan ! 2) ! 0) ! 0) = 4 \<and>
   reps (exercises (workouts (lift_plan ! 2) ! 0) ! 0) = RepsStr ''9-14'' \<and>
   sets (exercises (workouts (lift_plan ! 2) ! 0) ! 1) = 3 \<and>
   reps (exercises (workouts (lift_plan ! 2) ! 0) ! 1) = RepsInt 20"
proof -
  let ?wk = "lift_plan ! 2"
  have h1: "apply_progression lift_schedule 3 ''Beginner'' = Inr lift_plan" by code_simp
  have h2: "?wk \<in> set lift_plan" by code_simp
  have h3: "\<not> is_deload ?wk" by code_simp
  have h4: "week ?wk mod 2 = 1" by code_simp
  have h5: "0 < length (workouts ?wk)" by code_simp
  have h6: "0 < length (exercises (workouts ?wk ! 0))" by code_simp
  have h7: "1 < length (exercises (workouts ?wk ! 0))" by code_simp
  note t0 = odd_week_progression [OF h1 h2 h3 h4 h5 h6]
  note t1 = odd_week_progression [OF h1 h2 h3 h4 h5 h7]
  have lift: "2 < week ?wk \<and> str_lower (title (exercises (lift_schedule ! 0) ! 0)) \<in> set big_lifts"
    by code_simp
  have b0: "sets (exercises (lift_schedule ! 0) ! 0) = 3" by code_simp
  have r0: "is_range_string (reps (exercises (lift_schedule ! 0) ! 0))" by code_simp
  have p0: "parse_rep_range (reps_string (reps (exercises (lift_schedule ! 0) ! 0))) = Inr (8, 12)"
    by code_simp
  have f0: "format_range (min (8 + 1) 12) (min (12 + 2) 20) = ''9-14''" by code_simp
  have other: "\<not> (2 < week ?wk \<and> str_lower (title (exercises (lift_schedule ! 0) ! 1)) \<in> set big_lifts)"
    by code_simp
  have b1: "sets (exercises (lift_schedule ! 0) ! 1) = 3" by code_simp
  have r1: "\<not> is_range_string (reps (exercises (lift_schedule ! 0) ! 1))" by code_simp
  have v1: "reps (exercises (lift_schedule ! 0) ! 1) = RepsInt 20" by code_simp
  have s0: "sets (exercises (workouts ?wk ! 0) ! 0) = 4"
    using t0 [THEN conjunct1] lift b0 by simp
  have e0: "reps (exercises (workouts ?wk ! 0) ! 0) = RepsStr ''9-14''"
    using t0 [THEN conjunct2, THEN conjunct2] r0 p0 f0 by auto
  have s1: "sets (exercises (workouts ?wk ! 0) ! 1) = 3"
    using t1 [THEN conjunct1] other b1 by simp
  have e1: "reps (exercises (workouts ?wk ! 0) ! 1) = RepsInt 20"
    using t1 [THEN conjunct2, THEN conjunct1] r1 v1 by simp
  show ?thesis using h1 h2 h3 h4 h5 h6 h7 s0 e0 s1 e1 by blast
qed

text \<open>
  In week 1 of the Advanced plan the reps of Push-ups, which is none of the named
  lifts, change from 8-12 to 9-14.
\<close>

theorem odd_week_other_exercise_counterexample:
  "week (advanced_plan ! 0) = 1 \<and> \<not> is_deload (advanced_plan ! 0) \<and>
   title (exercises (advanced_schedule ! 0) ! 1) = ''Push-ups'' \<and>
   str_lower (title (exercises (advanced_schedule ! 0) ! 1)) \<notin> set big_lifts \<and>
   reps (exercises (advanced_schedule ! 0) ! 1) = RepsStr ''8-12'' \<and>
   reps (exercises (workouts (advanced_plan ! 0) ! 0) ! 1) = RepsStr ''9-14''"
  by code_simp

text \<open>
  Claim C2 at the three-week plan that \<open>_apply_progression\<close> builds from the Advanced
  schedule. Week 3 is the deload week. The base sets 5, 5, 4 become 3, 3, 2: the source
  multiplies by 0.6 for every level. With the reduction 0.25 of the Advanced entry of
  its table the sets would be 3, 3, 3.
\<close>

theorem deload_sets_ignore_level:
  "map (\<lambda>e. (title e, sets e)) (exercises (advanced_schedule ! 0)) =
     [(''Barbell Squat'', 5), (''Push-ups'', 5), (''Bicep Curls'', 4)] \<and>
   week (advanced_plan ! 2) = 3 \<and> is_deload (advanced_plan ! 2) \<and>
   map (\<lambda>e. (title e, sets e)) (exercises (workouts (advanced_plan ! 2) ! 0)) =
     [(''Barbell Squat'', 3), (''Push-ups'', 3), (''Bicep Curls'', 2)] \<and>
   map (spec_deload_sets ''Advanced'') [5, 5, 4] = [3, 3, 3]"
  by code_simp

text \<open>
  What holds of claim C2 for every level: the deload flag follows the table of
  frequencies, and the sets of a deload week are \<open>max 2 (3 * sets div 5)\<close>, which is
  the specification's formula for the Beginner reduction only.
\<close>

lemma py_trunc_six_tenths: "0 \<le> n \<Longrightarrow> py_trunc (of_int n * (6 / 10)) = (3 * n) div 5"
proof -
  assume n: "0 \<le> n"
  have "(of_int n :: rat) * (6 / 10) = of_int (3 * n) / of_int 5" by simp
  then have "\<lfloor>(of_int n :: rat) * (6 / 10)\<rfloor> = (3 * n) div 5"
    by (simp only: floor_divide_of_int_eq)
  moreover have "(0::rat) \<le> of_int n * (6 / 10)" using n by simp
  ultimately show ?thesis by (simp add: py_trunc_def)
qed

lemma py_trunc_three_fifths: "0 \<le> n \<Longrightarrow> py_trunc (of_int n * 3 / 5) = (3 * n) div 5"
  using py_trunc_six_tenths [of n] by simp

lemma deload_sets_code:
  "deload_exercise b = Inr e \<Longrightarrow> 0 \<le> sets b \<Longrightarrow> sets e = max 2 ((3 * sets b) div 5)"
  by (auto simp: deload_exercise_def Let_def py_trunc_three_fifths split: if_splits sum.splits)

lemma deload_frequency_table:
  "deload_frequency (progression_patterns ''Beginner'') = 4"
  "deload_frequency (progression_patterns ''Intermediate'') = 4"
  "deload_frequency (progression_patterns ''Advanced'') = 3"
  by (simp_all add: progression_patterns_def)

lemma deload_flag:
  "progress_week sched l w = Inr wk \<Longrightarrow>
   is_deload wk = (week wk mod deload_frequency (progression_patterns l) = 0)"
  by (auto simp: progress_week_def Let_def week_is_deload_def split: sum.splits)

lemma spec_deload_sets_beginner:
  "0 \<le> n \<Longrightarrow> spec_deload_sets ''Beginner'' n = max 2 ((3 * n) div 5)"
proof -
  assume "0 \<le> n"
  have "(of_int n :: rat) * (1 - 4 / 10) = of_int (3 * n) / of_int 5" by simp
  then have "\<lfloor>(of_int n :: rat) * (1 - 4 / 10)\<rfloor> = (3 * n) div 5"
    by (simp only: floor_divide_of_int_eq)
  then show ?thesis by (simp add: spec_deload_sets_def progression_patterns_def)
qed

section \<open>Daily recommender\<close>

text \<open>
  Claim C1 at a day with two scheduled workouts, both logged on that day. The removal
  loop deletes the first workout, which moves the second one to the index the iterator
  has already passed; the loop ends with the second workout still in the list, and the
  response is of type \<open>scheduled\<close> and lists it, whatever the arbitrary choices are.
\<close>

theorem logged_workout_remains:
  "scheduled_on both_logged 1 1 4 = [squat_row, curl_row] \<and>
   logged_today both_logged 0 squat_row \<and> logged_today both_logged 0 curl_row \<and>
   remove_while_iterating (logged_today both_logged 0) 0 [squat_row, curl_row] = [curl_row] \<and>
   get_daily_recommendation both_logged 0 rnd 1 (Some 1) =
     Inr (Scheduled ''Here's your workout for today:''
            [\<lparr>detail_row = curl_row, detail_exercise_type = ''Isolation'',
              detail_equipment = ''Dumbbells'', detail_muscle_group = ''Arms'',
              detail_level = ''Beginner''\<rparr>]
            []
            [(''Chest'', ''Ready''), (''Back'', ''Ready''), (''Legs'', ''0 days''),
             (''Shoulders'', ''Ready''), (''Arms'', ''0 days''), (''Core'', ''Ready'')])"
  by code_simp

text \<open>With a single scheduled workout the loop does empty the list.\<close>

lemma remove_single_logged:
  "done0 w \<Longrightarrow> remove_while_iterating done0 0 [w] = []"
  by (simp add: remove_while_iterating.simps)

lemma random_row_member:
  "rows \<noteq> [] \<Longrightarrow> \<exists>r. random_row k rows = Some r \<and> r \<in> set rows"
  by (simp add: random_row_def)

lemma day_name_exists: "1 \<le> d \<Longrightarrow> d \<le> 7 \<Longrightarrow> \<exists>n. map_of day_names d = Some n"
proof -
  assume "1 \<le> d" "d \<le> 7"
  then consider "d = 1" | "d = 2" | "d = 3" | "d = 4" | "d = 5" | "d = 6" | "d = 7"
    by linarith
  then show ?thesis by cases (simp_all add: day_names_def)
qed

lemma day_name_inject:
  "map_of day_names d = Some n \<Longrightarrow> map_of day_names d' = Some n \<Longrightarrow> d = d'"
  by (auto simp: day_names_def split: if_splits)

lemma weekday_range: "1 \<le> weekday_of t + 1 \<and> weekday_of t + 1 \<le> 7"
  by (simp add: weekday_of_def)

lemma alternative_other_day:
  assumes "scheduled_on db pid wk wd = []" and "a \<in> set (week_workouts db pid wk)"
  shows "pw_day a \<noteq> wd"
proof
  assume "pw_day a = wd"
  with assms(2) have "a \<in> set (scheduled_on db pid wk wd)"
    by (auto simp: week_workouts_def scheduled_on_def)
  with assms(1) show False by simp
qed

text \<open>
  Claim C8, as the code has it. The plan is resolved and has no workout on today's
  weekday of the current week. With more than 5 logs of the user in the last 3 days
  the response is the recovery workout. With 5 or fewer, when the current week of the
  plan has a workout at all and its day numbers lie in 1..7, the response is of type
  \<open>alternative\<close>: it names the day of a workout of that week, which is not today's
  weekday, and carries the workouts of that day.
\<close>

theorem no_workout_today:
  assumes "resolved_plan_id db plan_id0 = Some pid" and "pid \<noteq> 0"
    and "find (\<lambda>fp. fp_id fp = pid) (fitness_plans db) = Some plan_start"
    and "scheduled_on db pid (current_week_of plan_start today) (weekday_of today + 1) = []"
  shows "(5 < length (filter (\<lambda>wl. today - 3 \<le> wl_date wl \<and> wl_user_id wl = user_id) (workout_logs db)) \<longrightarrow>
            get_daily_recommendation db today rnd user_id plan_id0 = Inr (generate_recovery_workout rnd) \<and>
            response_type (generate_recovery_workout rnd) = Some ''recovery'') \<and>
         (length (filter (\<lambda>wl. today - 3 \<le> wl_date wl \<and> wl_user_id wl = user_id) (workout_logs db)) \<le> 5 \<longrightarrow>
          week_workouts db pid (current_week_of plan_start today) \<noteq> [] \<longrightarrow>
          list_all (\<lambda>pw. 1 \<le> pw_day pw \<and> pw_day pw \<le> 7)
            (week_workouts db pid (current_week_of plan_start today)) \<longrightarrow>
            (\<exists>alternative day_name.
               alternative \<in> set (week_workouts db pid (current_week_of plan_start today)) \<and>
               map_of day_names (pw_day alternative) = Some day_name \<and>
               get_daily_recommendation db today rnd user_id plan_id0 =
                 Inr (Alternative (alternative_message day_name) day_name
                        (scheduled_on db pid (current_week_of plan_start today) (pw_day alternative))) \<and>
               pw_day alternative \<noteq> weekday_of today + 1 \<and>
               map_of day_names (weekday_of today + 1) \<noteq> Some day_name))"
proof (intro conjI impI)
  let ?n = "length (filter (\<lambda>wl. today - 3 \<le> wl_date wl \<and> wl_user_id wl = user_id) (workout_logs db))"
  assume "5 < ?n"
  then have "needs_recovery db today user_id" by (simp add: needs_recovery_def)
  then show "get_daily_recommendation db today rnd user_id plan_id0 = Inr (generate_recovery_workout rnd)"
    using assms by (simp add: get_daily_recommendation_def Let_def)
next
  show "response_type (generate_recovery_workout rnd) = Some ''recovery''"
    by (simp add: generate_recovery_workout_def response_type_def)
next
  let ?n = "length (filter (\<lambda>wl. today - 3 \<le> wl_date wl \<and> wl_user_id wl = user_id) (workout_logs db))"
  let ?wk = "current_week_of plan_start today"
  assume few: "?n \<le> 5" and rows: "week_workouts db pid ?wk \<noteq> []"
    and days: "list_all (\<lambda>pw. 1 \<le> pw_day pw \<and> pw_day pw \<le> 7) (week_workouts db pid ?wk)"
  from few have nr: "\<not> needs_recovery db today user_id" by (simp add: needs_recovery_def)
  from random_row_member[OF rows] obtain a where
    a: "random_row (pick_alternative rnd) (week_workouts db pid ?wk) = Some a"
    and mem: "a \<in> set (week_workouts db pid ?wk)"
    by blast
  from days mem have "1 \<le> pw_day a" "pw_day a \<le> 7" by (auto simp: list_all_iff)
  from day_name_exists[OF this] obtain n where n: "map_of day_names (pw_day a) = Some n"
    by blast
  have other: "pw_day a \<noteq> weekday_of today + 1"
    using alternative_other_day[OF assms(4) mem] .
  have name: "map_of day_names (weekday_of today + 1) \<noteq> Some n"
    using day_name_inject[OF n] other by auto
  have "get_daily_recommendation db today rnd user_id plan_id0 =
          Inr (Alternative (alternative_message n) n (scheduled_on db pid ?wk (pw_day a)))"
    using assms nr a n by (simp add: get_daily_recommendation_def Let_def)
  with mem n other name
  show "\<exists>alternative day_name.
               alternative \<in> set (week_workouts db pid ?wk) \<and>
               map_of day_names (pw_day alternative) = Some day_name \<and>
               get_daily_recommendation db today rnd user_id plan_id0 =
                 Inr (Alternative (alternative_message day_name) day_name
                        (scheduled_on db pid ?wk (pw_day alternative))) \<and>
               pw_day alternative \<noteq> weekday_of today + 1 \<and>
               map_of day_names (weekday_of today + 1) \<noteq> Some day_name"
    by blast
qed

text \<open>
  On day 10 the bench plan is in week 2, which has no workout, and two logs fall in the
  last 3 days: the response is of type \<open>completed\<close>, not \<open>alternative\<close>.
\<close>

theorem empty_week_counterexample:
  "resolved_plan_id bench_history (Some 1) = Some 1 \<and>
   scheduled_on bench_history 1 2 (weekday_of 10 + 1) = [] \<and>
   length (filter (\<lambda>wl. 10 - 3 \<le> wl_date wl \<and> wl_user_id wl = 1) (workout_logs bench_history)) = 2 \<and>
   get_daily_recommendation bench_history 10 fixed_choices 1 (Some 1) =
     Inr (Completed
            ''You've completed all scheduled workouts for today! Would you like a bonus workout?''
            \<lparr>option_title = ''Arms Specialization'',
             option_description = ''Focus on Arms with high volume'',
             option_exercises = []\<rparr>)"
  by code_simp


theorem no_workout_today_witness:
  "resolved_plan_id six_sessions (Some 1) = Some 1 \<and> (1::int) \<noteq> 0 \<and>
   find (\<lambda>fp. fp_id fp = 1) (fitness_plans six_sessions) = Some bench_plan \<and>
   scheduled_on six_sessions 1 (current_week_of bench_plan 10) (weekday_of 10 + 1) = [] \<and>
   5 < length (filter (\<lambda>wl. 10 - 3 \<le> wl_date wl \<and> wl_user_id wl = 1) (workout_logs six_sessions)) \<and>
   get_daily_recommendation six_sessions 10 fixed_choices 1 (Some 1)
     = Inr (generate_recovery_workout fixed_choices) \<and>
   response_type (generate_recovery_workout fixed_choices) = Some ''recovery'' \<and>
   resolved_plan_id bench_history None = Some 1 \<and>
   find (\<lambda>fp. fp_id fp = 1) (fitness_plans bench_history) = Some bench_plan \<and>
   scheduled_on bench_history 1 (current_week_of bench_plan 0) (weekday_of 0 + 1) = [] \<and>
   length (filter (\<lambda>wl. 0 - 3 \<le> wl_date wl \<and> wl_user_id wl = 1) (workout_logs bench_history)) \<le> 5 \<and>
   week_workouts bench_history 1 (current_week_of bench_plan 0) \<noteq> [] \<and>
   list_all (\<lambda>pw. 1 \<le> pw_day pw \<and> pw_day pw \<le> 7)
     (week_workouts bench_history 1 (current_week_of bench_plan 0)) \<and>
   (\<exists>alternative day_name.
      alternative \<in> set (week_workouts bench_history 1 (current_week_of bench_plan 0)) \<and>
      map_of day_names (pw_day alternative) = Some day_name \<and>
      get_daily_recommendation bench_history 0 fixed_choices 1 None =
        Inr (Alternative (alternative_message day_name) day_name
               (scheduled_on bench_history 1 (current_week_of bench_plan 0) (pw_day alternative))) \<and>
      pw_day alternative \<noteq> weekday_of 0 + 1 \<and>
      map_of day_names (weekday_of 0 + 1) \<noteq> Some day_name)"
proof -
  have a1: "resolved_plan_id six_sessions (Some 1) = Some 1" by code_simp
  have a2: "(1::int) \<noteq> 0" by simp
  have a3: "find (\<lambda>fp. fp_id fp = 1) (fitness_plans six_sessions) = Some bench_plan" by code_simp
  have a4: "scheduled_on six_sessions 1 (current_week_of bench_plan 10) (weekday_of 10 + 1) = []"
    by code_simp
  have a5: "5 < length (filter (\<lambda>wl. 10 - 3 \<le> wl_date wl \<and> wl_user_id wl = 1)
                   (workout_logs six_sessions))"
    by code_simp
  note ta = no_workout_today [OF a1 a2 a3 a4, of 1 fixed_choices, THEN conjunct1]
  have b1: "resolved_plan_id bench_history None = Some 1" by code_simp
  have b3: "find (\<lambda>fp. fp_id fp = 1) (fitness_plans bench_history) = Some bench_plan" by code_simp
  have b4: "scheduled_on bench_history 1 (current_week_of bench_plan 0) (weekday_of 0 + 1) = []"
    by code_simp
  have b5: "length (filter (\<lambda>wl. 0 - 3 \<le> wl_date wl \<and> wl_user_id wl = 1)
               (workout_logs bench_history)) \<le> 5"
    by code_simp
  have b6: "week_workouts bench_history 1 (current_week_of bench_plan 0) \<noteq> []" by code_simp
  have b7: "list_all (\<lambda>pw. 1 \<le> pw_day pw \<and> pw_day pw \<le> 7)
              (week_workouts bench_history 1 (current_week_of bench_plan 0))"
    by code_simp
  note tb = no_workout_today [OF b1 a2 b3 b4, of 1 fixed_choices, THEN conjunct2]
  show ?thesis using a1 a2 a3 a4 a5 ta b1 b3 b4 b5 b6 b7 tb by blast
qed

end
